theory Spec2Isabelle
  imports Main "HOL-Library.Sublist"
begin

section \<open>The Maya engine for Tank: a model of engine.py\<close>

text \<open>
  The module keeps a pipeline engine in step with the scene that is open in Maya, and
  runs a serial job queue. Everything it does goes through collaborators (Maya's
  message and UI layers, the tank core API), so the model is a state transformer on
  an explicit \<open>world\<close>: the part of Maya and of tank core that the module reads
  and writes, plus a trace of the calls it makes. What a collaborator answers is
  taken from a \<open>host\<close> record; an exception is a value, and every function that
  can raise returns \<open>(exn + 'a) \<times> world\<close>: the world is kept on both sides, since
  the effects made before a raise stay.
\<close>

subsection \<open>Exceptions\<close>

text \<open>
  The exception classes the handlers of the module tell apart. \<open>ExceptionCls\<close>
  stands for any other subclass of Exception, \<open>BaseExceptionCls\<close> for what Python
  raises outside Exception (KeyboardInterrupt, SystemExit).
\<close>

datatype exn_class = TankErrorCls | TankEngineInitErrorCls | ExceptionCls | BaseExceptionCls

datatype exn = Exn (cls: exn_class) (msg: string)

text \<open>\<^verbatim>\<open>except Exception, e\<close>\<close>

definition is_Exception :: "exn \<Rightarrow> bool" where
  "is_Exception e = (cls e \<noteq> BaseExceptionCls)"

text \<open>\<^verbatim>\<open>except tank.TankEngineInitError, e\<close>\<close>

definition is_TankEngineInitError :: "exn \<Rightarrow> bool" where
  "is_TankEngineInitError e = (cls e = TankEngineInitErrorCls)"

subsection \<open>Collaborators and the world\<close>

datatype scene_event = kAfterOpen | kAfterSave | kAfterNew | kMayaExiting

text \<open>The two static methods of SceneEventWatcher that are handed to Maya.\<close>

datatype callback = scene_event_cb | maya_exiting_cb

text \<open>
  tank.Context and the Tank API instance are classes of tank core. The module
  compares contexts with \<open>==\<close> and reads \<open>context.project\<close>; nothing else.
\<close>

datatype tank_context = Context (project: "string option") (location: string)

datatype tk = Tk string

datatype action =
    DeleteUI string
  | CreateMenu string
  | CreateMenuItem string string
  | DisplayInfo string
  | DisplayError exn
  | TankFromPath string
  | ContextFromPath tk string "tank_context option"
  | LogDebug string
  | DestroyCalled nat
  | DestroyReturned nat
  | StartEngineCalled string tk tank_context
  | StartEngineReturned nat
  | AddCallback scene_event nat
  | AddCallbackFailed scene_event
  | RemoveCallback nat

text \<open>
  A SceneEventWatcher object. Both places that build one pass the closure
  \<^verbatim>\<open>lambda en=..., pc=...: on_scene_event_callback(en, pc)\<close>, so \<open>cb_fn\<close> is
  the pair of values the closure captured.
\<close>

record watcher =
  message_ids :: "nat list"
  cb_fn :: "string \<times> tank_context option"
  scene_events :: "scene_event list"
  run_once :: bool

text \<open>
  A MayaEngine object, as far as the scene-event code reads it. An attribute that
  has not been assigned yet is \<open>None\<close>.
\<close>

record engine =
  engine_id :: nat
  instance_name :: string
  engine_tk :: tk
  engine_context :: tank_context
  engine_watcher :: "nat option"
  menu_handle :: "string option"

text \<open>
  The world: tank core's current engine, the menus of Maya's main window, Maya's
  table of registered callbacks (message id, event, callback, client data), the
  heap of watcher objects, and the trace.
\<close>

record world =
  current_engine :: "engine option"
  menus :: "string set"
  callbacks :: "(nat \<times> scene_event \<times> callback \<times> nat) list"
  next_msg_id :: nat
  watchers :: "nat \<rightharpoonup> watcher"
  next_watcher_id :: nat
  next_engine_id :: nat
  trace :: "action list"

text \<open>
  What the collaborators answer during one event. \<open>init_error_is_tank_error\<close>
  says whether tank core declares TankEngineInitError as a subclass of TankError
  (the declaration is not in this module).
\<close>

record host =
  sceneName :: string
  abspath :: "string \<Rightarrow> string"
  tank_from_path :: "string \<Rightarrow> exn + tk"
  context_from_path :: "tk \<Rightarrow> string \<Rightarrow> tank_context option \<Rightarrow> exn + tank_context"
  start_engine_raises :: "string \<Rightarrow> tk \<Rightarrow> tank_context \<Rightarrow> exn option"
  destroy_raises :: "engine \<Rightarrow> exn option"
  add_callback_raises :: "scene_event \<Rightarrow> exn option"
  operatingSystem :: string
  maya_version :: string
  batch :: bool
  init_error_is_tank_error :: bool

text \<open>\<^verbatim>\<open>except tank.TankError, e\<close>\<close>

definition is_TankError :: "host \<Rightarrow> exn \<Rightarrow> bool" where
  "is_TankError h e =
     (cls e = TankErrorCls \<or> (cls e = TankEngineInitErrorCls \<and> init_error_is_tank_error h))"

definition emit :: "action \<Rightarrow> world \<Rightarrow> world" where
  "emit a w = w\<lparr>trace := trace w @ [a]\<rparr>"

subsection \<open>Maya's message layer\<close>

text \<open>
  \<^verbatim>\<open>OpenMaya.MSceneMessage.addCallback(ev, fn, clientData)\<close>: registers and returns a
  fresh message id, or raises what the host says.
\<close>

definition addCallback ::
  "host \<Rightarrow> scene_event \<Rightarrow> callback \<Rightarrow> nat \<Rightarrow> world \<Rightarrow> (exn + nat) \<times> world" where
  "addCallback h ev fn client w =
     (case add_callback_raises h ev of
        Some e \<Rightarrow> (Inl e, emit (AddCallbackFailed ev) w)
      | None \<Rightarrow>
          (Inr (next_msg_id w),
           emit (AddCallback ev (next_msg_id w))
             (w\<lparr>callbacks := callbacks w @ [(next_msg_id w, ev, fn, client)],
                next_msg_id := Suc (next_msg_id w)\<rparr>)))"

text \<open>
  \<^verbatim>\<open>OpenMaya.MMessage.removeCallback(msg_id)\<close>: releases a registration. Releasing an
  id that is not registered (a double release) is an error of the binding.
\<close>

definition removeCallback :: "nat \<Rightarrow> world \<Rightarrow> (exn + unit) \<times> world" where
  "removeCallback i w =
     (if i \<in> fst ` set (callbacks w)
      then (Inr (), emit (RemoveCallback i)
                      (w\<lparr>callbacks := filter (\<lambda>c. fst c \<noteq> i) (callbacks w)\<rparr>))
      else (Inl (Exn ExceptionCls ''RuntimeError''), w))"

subsection \<open>SceneEventWatcher\<close>

text \<open>The loop of \<open>stop_watching\<close>: \<^verbatim>\<open>for msg_id in self.__message_ids\<close>.\<close>

fun remove_callbacks :: "nat list \<Rightarrow> world \<Rightarrow> (exn + unit) \<times> world" where
  "remove_callbacks [] w = (Inr (), w)"
| "remove_callbacks (i # ids) w =
     (case removeCallback i w of
        (Inl e, w1) \<Rightarrow> (Inl e, w1)
      | (Inr u, w1) \<Rightarrow> remove_callbacks ids w1)"

text \<open>
  A reference to a watcher that was never built does not arise in the program; the
  model answers it with AttributeError, as Python does for a missing attribute.
\<close>

definition no_such_object :: exn where
  "no_such_object = Exn ExceptionCls ''AttributeError''"

definition stop_watching :: "nat \<Rightarrow> world \<Rightarrow> (exn + unit) \<times> world" where
  "stop_watching self w =
     (case watchers w self of
        None \<Rightarrow> (Inl no_such_object, w)
      | Some wt \<Rightarrow>
          (case remove_callbacks (message_ids wt) w of
             (Inl e, w1) \<Rightarrow> (Inl e, w1)
           | (Inr u, w1) \<Rightarrow>
               (Inr (), w1\<lparr>watchers := (watchers w1)(self \<mapsto> wt\<lparr>message_ids := []\<rparr>)\<rparr>)))"

text \<open>\<^verbatim>\<open>self.__message_ids.append(msg_id)\<close>\<close>

definition append_message_id :: "nat \<Rightarrow> nat \<Rightarrow> world \<Rightarrow> world" where
  "append_message_id self msg_id w =
     (case watchers w self of
        None \<Rightarrow> w
      | Some wt \<Rightarrow>
          w\<lparr>watchers := (watchers w)(self \<mapsto> wt\<lparr>message_ids := message_ids wt @ [msg_id]\<rparr>)\<rparr>)"

text \<open>
  The first loop of \<open>start_watching\<close>: a scene event whose registration raises an
  Exception is skipped (\<^verbatim>\<open>continue\<close>); anything else propagates.
\<close>

fun add_scene_callbacks ::
  "host \<Rightarrow> nat \<Rightarrow> scene_event list \<Rightarrow> world \<Rightarrow> (exn + unit) \<times> world" where
  "add_scene_callbacks h self [] w = (Inr (), w)"
| "add_scene_callbacks h self (ev # evs) w =
     (case addCallback h ev scene_event_cb self w of
        (Inl e, w1) \<Rightarrow>
          if is_Exception e then add_scene_callbacks h self evs w1 else (Inl e, w1)
      | (Inr msg_id, w1) \<Rightarrow>
          add_scene_callbacks h self evs (append_message_id self msg_id w1))"

definition start_watching :: "host \<Rightarrow> nat \<Rightarrow> world \<Rightarrow> (exn + unit) \<times> world" where
  "start_watching h self w =
     (case stop_watching self w of
        (Inl e, w1) \<Rightarrow> (Inl e, w1)
      | (Inr u, w1) \<Rightarrow>
          (case watchers w1 self of
             None \<Rightarrow> (Inl no_such_object, w1)
           | Some wt \<Rightarrow>
               (case add_scene_callbacks h self (scene_events wt) w1 of
                  (Inl e, w2) \<Rightarrow> (Inl e, w2)
                | (Inr u, w2) \<Rightarrow>
                    (case addCallback h kMayaExiting maya_exiting_cb self w2 of
                       (Inl e, w3) \<Rightarrow> (Inl e, w3)
                     | (Inr msg_id, w3) \<Rightarrow> (Inr (), append_message_id self msg_id w3)))))"

text \<open>The default of the constructor's \<open>scene_events\<close> parameter.\<close>

definition default_scene_events :: "scene_event list" where
  "default_scene_events = [kAfterOpen, kAfterSave, kAfterNew]"

text \<open>
  \<open>SceneEventWatcher.__init__\<close>: allocates the object, then registers. The result
  is the reference to the new watcher.
\<close>

definition SceneEventWatcher ::
  "host \<Rightarrow> string \<times> tank_context option \<Rightarrow> scene_event list \<Rightarrow> bool \<Rightarrow> world
     \<Rightarrow> (exn + nat) \<times> world" where
  "SceneEventWatcher h cb evs once w =
     (let self = next_watcher_id w;
          w1 = w\<lparr>watchers := (watchers w)(self \<mapsto>
                     \<lparr>message_ids = [], cb_fn = cb, scene_events = evs, run_once = once\<rparr>),
                 next_watcher_id := Suc self\<rparr>
      in case start_watching h self w1 of
           (Inl e, w2) \<Rightarrow> (Inl e, w2)
         | (Inr u, w2) \<Rightarrow> (Inr self, w2))"

text \<open>\<open>__maya_exiting_callback\<close>, called by Maya with the watcher as client data.\<close>

definition maya_exiting_callback :: "nat \<Rightarrow> world \<Rightarrow> (exn + unit) \<times> world" where
  "maya_exiting_callback watcher_ref w = stop_watching watcher_ref w"

subsection \<open>Maya's UI layer, as the module uses it\<close>

text \<open>\<^verbatim>\<open>pm.menu(name, exists=True)\<close>\<close>

definition menu_exists :: "string \<Rightarrow> world \<Rightarrow> bool" where
  "menu_exists n w = (n \<in> menus w)"

text \<open>\<^verbatim>\<open>pm.deleteUI(name)\<close>\<close>

definition deleteUI :: "string \<Rightarrow> world \<Rightarrow> world" where
  "deleteUI n w = emit (DeleteUI n) (w\<lparr>menus := menus w - {n}\<rparr>)"

text \<open>\<^verbatim>\<open>pm.menu(name, label="Tank", parent=pm.melGlobals["gMainWindow"])\<close>\<close>

definition menu_create :: "string \<Rightarrow> world \<Rightarrow> world" where
  "menu_create n w = emit (CreateMenu n) (w\<lparr>menus := insert n (menus w)\<rparr>)"

definition create_tank_disabled_menu :: "world \<Rightarrow> world" where
  "create_tank_disabled_menu w =
     (let w1 = (if menu_exists ''TankMenu'' w then deleteUI ''TankMenu'' w else w);
          w2 = menu_create ''TankMenuDisabled'' w1
      in emit (CreateMenuItem ''Tank is disabled.'' ''TankMenuDisabled'') w2)"

subsection \<open>MayaEngine: init and destroy\<close>

text \<open>
  \<open>MayaEngine.log_debug\<close> shows the message only when the engine's
  \<open>debug_logging\<close> setting is on. The trace records the call with its format
  string, shown or not; no property below depends on these entries.
\<close>

definition log_debug :: "string \<Rightarrow> world \<Rightarrow> world" where
  "log_debug m w = emit (LogDebug m) w"

text \<open>\<^verbatim>\<open>current_maya_version.startswith("2012") or ...startswith("2013")\<close>\<close>

definition supported_version :: "string \<Rightarrow> bool" where
  "supported_version v = (take 4 v = ''2012'' \<or> take 4 v = ''2013'')"

text \<open>
  \<open>init_engine\<close>. The three checks raise tank.TankError. \<open>_set_project\<close> and
  \<open>_init_pyside\<close> touch the Maya project and the module search path only, which the
  world does not hold. The watcher is built last, with the closure over the
  engine's instance name and context.
\<close>

definition init_engine :: "host \<Rightarrow> engine \<Rightarrow> world \<Rightarrow> (exn + engine) \<times> world" where
  "init_engine h self w =
     (let w1 = log_debug ''%s: Initializing...'' w in
      if operatingSystem h \<notin> set [''mac'', ''win64'', ''linux64'']
      then (Inl (Exn TankErrorCls ''The current platform is not supported!''), w1)
      else if \<not> supported_version (maya_version h)
      then (Inl (Exn TankErrorCls ''Your version of Maya is not supported.''), w1)
      else
        let w2 = log_debug ''Running Maya version %s'' w1 in
        if project (engine_context self) = None
        then (Inl (Exn TankErrorCls
                ''The Tank engine needs at least a project in the context in order to start!''), w2)
        else
          (case SceneEventWatcher h (instance_name self, Some (engine_context self))
                  default_scene_events False w2 of
             (Inl e, w3) \<Rightarrow> (Inl e, w3)
           | (Inr wref, w3) \<Rightarrow>
               (Inr (self\<lparr>engine_watcher := Some wref\<rparr>),
                log_debug ''Registered open and save callbacks.'' w3)))"

text \<open>\<open>has_ui\<close>: \<^verbatim>\<open>cmds.about(batch=True)\<close> is false.\<close>

definition has_ui :: "host \<Rightarrow> bool" where
  "has_ui h = (\<not> batch h)"

definition post_app_init :: "host \<Rightarrow> engine \<Rightarrow> world \<Rightarrow> engine \<times> world" where
  "post_app_init h self w =
     (if has_ui h
      then (self\<lparr>menu_handle := Some ''TankMenu''\<rparr>, menu_create ''TankMenu'' w)
      else (self, w))"

text \<open>
  \<open>destroy_engine\<close>: stops the engine's watcher, then removes the engine's menu.
  Reading an attribute that was never assigned raises AttributeError.
\<close>

definition destroy_engine :: "engine \<Rightarrow> world \<Rightarrow> (exn + unit) \<times> world" where
  "destroy_engine self w =
     (let w1 = log_debug ''%s: Destroying...'' w in
      case engine_watcher self of
        None \<Rightarrow> (Inl no_such_object, w1)
      | Some wref \<Rightarrow>
          (case stop_watching wref w1 of
             (Inl e, w2) \<Rightarrow> (Inl e, w2)
           | (Inr u, w2) \<Rightarrow>
               (case menu_handle self of
                  None \<Rightarrow> (Inl no_such_object, w2)
                | Some m \<Rightarrow>
                    (Inr (), if menu_exists m w2 then deleteUI m w2 else w2))))"

subsection \<open>tank.platform, as the module uses it\<close>

text \<open>
  \<open>tank.platform.start_engine(engine_name, tk, ctx)\<close> and \<open>Engine.destroy()\<close> belong
  to tank core. The model takes their contract: start_engine fails with what the
  host says, or builds the MayaEngine, whose constructor runs \<open>init_engine\<close> and
  then \<open>post_app_init\<close>, and makes it the current engine; an exception of
  \<open>init_engine\<close> propagates and leaves no current engine. \<open>destroy\<close> fails with
  what the host says, or runs \<open>destroy_engine\<close> and then clears the current engine.
  The trace brackets both calls.
\<close>

definition start_engine ::
  "host \<Rightarrow> string \<Rightarrow> tk \<Rightarrow> tank_context \<Rightarrow> world \<Rightarrow> (exn + engine) \<times> world" where
  "start_engine h engine_name t ctx w =
     (let w1 = emit (StartEngineCalled engine_name t ctx) w in
      case start_engine_raises h engine_name t ctx of
        Some e \<Rightarrow> (Inl e, w1)
      | None \<Rightarrow>
          (let self = \<lparr>engine_id = next_engine_id w1, instance_name = engine_name,
                        engine_tk = t, engine_context = ctx,
                        engine_watcher = None, menu_handle = None\<rparr>;
               w2 = w1\<lparr>next_engine_id := Suc (next_engine_id w1)\<rparr>
           in case init_engine h self w2 of
                (Inl e, w3) \<Rightarrow> (Inl e, w3)
              | (Inr self1, w3) \<Rightarrow>
                  (case post_app_init h self1 w3 of
                     (self2, w4) \<Rightarrow>
                       (Inr self2,
                        emit (StartEngineReturned (engine_id self2))
                          (w4\<lparr>current_engine := Some self2\<rparr>)))))"

definition destroy :: "host \<Rightarrow> engine \<Rightarrow> world \<Rightarrow> (exn + unit) \<times> world" where
  "destroy h self w =
     (let w1 = emit (DestroyCalled (engine_id self)) w in
      case destroy_raises h self of
        Some e \<Rightarrow> (Inl e, w1)
      | None \<Rightarrow>
          (case destroy_engine self w1 of
             (Inl e, w2) \<Rightarrow> (Inl e, w2)
           | (Inr u, w2) \<Rightarrow>
               (Inr (), emit (DestroyReturned (engine_id self)) (w2\<lparr>current_engine := None\<rparr>))))"

subsection \<open>The coordinator\<close>

text \<open>
  \<open>refresh_engine\<close>, branch by branch as the source has it. The result is the
  engine the function returns (\<open>None\<close> for Python's None), or the exception that
  leaves it. An engine object is truthy, so \<^verbatim>\<open>if current_engine:\<close> is the test for
  not None.
\<close>

definition refresh_engine ::
  "host \<Rightarrow> string \<Rightarrow> tank_context option \<Rightarrow> world \<Rightarrow> (exn + engine option) \<times> world" where
  "refresh_engine h engine_name prev_context w =
     (let cur = current_engine w;
          w1 = (if menu_exists ''TankMenuDisabled'' w then deleteUI ''TankMenuDisabled'' w else w)
      in
      if sceneName h = [] then (Inr cur, w1)
      else
        let new_path = abspath h (sceneName h);
            w2 = emit (TankFromPath new_path) w1
        in
        case tank_from_path h new_path of
          Inl e \<Rightarrow>
            if is_TankError h e
            then (Inr cur,
                  create_tank_disabled_menu
                    (emit (DisplayInfo (''Tank Engine cannot be started: '' @ msg e)) w2))
            else (Inl e, w2)
        | Inr t \<Rightarrow>
            let w3 = emit (ContextFromPath t new_path prev_context) w2 in
            (case context_from_path h t new_path prev_context of
               Inl e \<Rightarrow> (Inl e, w3)
             | Inr ctx \<Rightarrow>
                 if cur \<noteq> None \<and> Some ctx = prev_context then (Inr cur, w3)
                 else
                   (case (case cur of
                            None \<Rightarrow> (Inr (), w3)
                          | Some ce \<Rightarrow>
                              destroy h ce
                                (log_debug ''New context: %s''
                                  (log_debug ''Prev context: %s''
                                    (log_debug
                                       ''Ready to switch to context because of scene event !''
                                       w3)))) of
                      (Inl e, w4) \<Rightarrow> (Inl e, w4)
                    | (Inr u, w4) \<Rightarrow>
                        (case start_engine h engine_name t ctx w4 of
                           (Inl e, w5) \<Rightarrow>
                             if is_TankEngineInitError e
                             then (Inr None,
                                   create_tank_disabled_menu
                                     (emit (DisplayInfo
                                        (''Tank Engine cannot be started: '' @ msg e)) w5))
                             else (Inl e, w5)
                         | (Inr new_engine, w5) \<Rightarrow>
                             (Inr (Some new_engine),
                              log_debug ''Launched new engine for context!'' w5)))))"

text \<open>
  \<open>on_scene_event_callback\<close>. The \<open>try\<close> covers \<open>refresh_engine\<close> only; the watcher
  is built after it, outside any handler. \<open>DisplayError\<close> stands for the message
  assembled from the exception and its traceback.
\<close>

definition on_scene_event_callback ::
  "host \<Rightarrow> string \<Rightarrow> tank_context option \<Rightarrow> world \<Rightarrow> (exn + unit) \<times> world" where
  "on_scene_event_callback h engine_name prev_context w =
     (case (case refresh_engine h engine_name prev_context w of
              (Inr r, w1) \<Rightarrow> (Inr r, w1)
            | (Inl e, w1) \<Rightarrow>
                if is_Exception e then (Inr None, emit (DisplayError e) w1)
                else (Inl e, w1)) of
        (Inl e, w2) \<Rightarrow> (Inl e, w2)
      | (Inr (Some new_engine), w2) \<Rightarrow> (Inr (), w2)
      | (Inr None, w2) \<Rightarrow>
          (case SceneEventWatcher h (engine_name, prev_context) default_scene_events True w2 of
             (Inl e, w3) \<Rightarrow> (Inl e, w3)
           | (Inr wref, w3) \<Rightarrow> (Inr (), w3)))"

text \<open>
  \<open>__scene_event_callback\<close>, called by Maya with the watcher as client data when a
  subscribed scene event fires: a run-once watcher stops first, then the callback
  runs.
\<close>

definition scene_event_callback :: "host \<Rightarrow> nat \<Rightarrow> world \<Rightarrow> (exn + unit) \<times> world" where
  "scene_event_callback h watcher_ref w =
     (case watchers w watcher_ref of
        None \<Rightarrow> (Inl no_such_object, w)
      | Some wt \<Rightarrow>
          (case (if run_once wt then stop_watching watcher_ref w else (Inr (), w)) of
             (Inl e, w1) \<Rightarrow> (Inl e, w1)
           | (Inr u, w1) \<Rightarrow> on_scene_event_callback h (fst (cb_fn wt)) (snd (cb_fn wt)) w1))"

subsection \<open>MayaEngine: the queue\<close>

text \<open>
  The values a job's argument mapping holds; \<open>ReportProgress\<close> is the bound method
  \<open>self.report_progress\<close>.
\<close>

datatype pyvalue = PyNone | PyInt int | PyStr string | ReportProgress

type_synonym kwargs = "string \<rightharpoonup> pyvalue"

text \<open>
  A queue item is the dictionary \<open>qi\<close> of \<open>add_to_queue\<close>. \<open>qi["args"]\<close> is a
  reference: the caller's mapping object lives in the store, and the item holds its
  address. \<open>qi["method"]\<close> is any callable; of a call the model keeps what the
  engine can see of it: the percentages it reports through the progress callback,
  in order, and whether it then returns or raises. A job that reaches the engine
  through other references (one that enqueues from inside its action, or writes to
  the caller's mapping through a reference of its own) is outside this model.
\<close>

record queue_item =
  qi_name :: string
  qi_method :: "kwargs \<Rightarrow> int list \<times> exn option"
  qi_args :: nat

datatype progress_action =
    DisplayWarning string
  | BeginProgress string
  | Invoke string kwargs
  | ProgressStep int
  | LogException string
  | EndProgress

text \<open>
  The attributes of MayaEngine the queue code uses, the store of mapping objects,
  and the trace of calls to Maya's progress bar and log. An address the store does
  not map holds an object that is not a mapping (None, say).
\<close>

record queue_state =
  queue :: "queue_item list"
  current_progress :: int
  maya_progress_bar :: "string option"
  store :: "nat \<rightharpoonup> kwargs"
  progress_trace :: "progress_action list"

definition qemit :: "progress_action \<Rightarrow> queue_state \<Rightarrow> queue_state" where
  "qemit a st = st\<lparr>progress_trace := progress_trace st @ [a]\<rparr>"

definition log_warning :: "string \<Rightarrow> queue_state \<Rightarrow> queue_state" where
  "log_warning m st = qemit (DisplayWarning (''Tank: '' @ m)) st"

definition deprecated :: string where
  "deprecated =
     ''The Engine Queue is now deprecated! Please contact support@shotgunsoftware.com''"

definition add_to_queue ::
  "string \<Rightarrow> (kwargs \<Rightarrow> int list \<times> exn option) \<Rightarrow> nat \<Rightarrow> queue_state \<Rightarrow> queue_state" where
  "add_to_queue n m a st =
     (let st1 = log_warning deprecated st;
          qi = \<lparr>qi_name = n, qi_method = m, qi_args = a\<rparr>
      in st1\<lparr>queue := queue st1 @ [qi]\<rparr>)"

definition report_progress :: "int \<Rightarrow> queue_state \<Rightarrow> queue_state" where
  "report_progress percent st =
     (let delta = percent - current_progress st
      in (qemit (ProgressStep delta) st)\<lparr>current_progress := percent\<rparr>)"

text \<open>\<^verbatim>\<open>self.log_exception("Error while processing callback %s" % current_queue_item)\<close>\<close>

definition log_exception :: "queue_item \<Rightarrow> queue_state \<Rightarrow> queue_state" where
  "log_exception item st = qemit (LogException (qi_name item)) st"

text \<open>
  The body of the loop of \<open>execute_queue\<close>, after the item has been taken off. The
  assignment \<^verbatim>\<open>kwargs["progress_callback"] = ...\<close> writes to the object \<open>qi["args"]\<close>
  refers to, and raises when that object is not a mapping; the bare \<open>except\<close>
  catches whatever the \<open>try\<close> block raises, and the \<open>finally\<close> ends the progress.
\<close>

definition process_item :: "queue_item \<Rightarrow> queue_state \<Rightarrow> queue_state" where
  "process_item current_queue_item st =
     (let st1 = qemit (BeginProgress (qi_name current_queue_item)) st;
          st2 = st1\<lparr>current_progress := 0\<rparr>;
          st3 =
            (case store st2 (qi_args current_queue_item) of
               None \<Rightarrow> log_exception current_queue_item st2
             | Some kw \<Rightarrow>
                 (let kw1 = kw(''progress_callback'' \<mapsto> ReportProgress);
                      st4 = st2\<lparr>store := (store st2)(qi_args current_queue_item \<mapsto> kw1)\<rparr>;
                      st5 = qemit (Invoke (qi_name current_queue_item) kw1) st4;
                      st6 = foldl (\<lambda>s p. report_progress p s) st5
                              (fst (qi_method current_queue_item kw1))
                  in case snd (qi_method current_queue_item kw1) of
                       None \<Rightarrow> st6
                     | Some e \<Rightarrow> log_exception current_queue_item st6))
      in qemit EndProgress st3)"

text \<open>\<^verbatim>\<open>while len(self._queue) > 0\<close>\<close>

function execute_loop :: "queue_state \<Rightarrow> queue_state" where
  "execute_loop st =
     (case queue st of
        [] \<Rightarrow> st
      | current_queue_item # rest \<Rightarrow>
          execute_loop (process_item current_queue_item (st\<lparr>queue := rest\<rparr>)))"
  by pat_completeness auto

termination
proof (relation "measure (\<lambda>st. length (queue st))")
  show "wf (measure (\<lambda>st. length (queue st)))"
    by simp
next
  fix st :: queue_state and current_queue_item rest
  assume q: "queue st = current_queue_item # rest"
  have reports: "queue (foldl (\<lambda>s p. report_progress p s) s ps) = queue s" for s ps
    by (induction ps arbitrary: s) (simp_all add: report_progress_def qemit_def Let_def)
  have "queue (process_item current_queue_item (st\<lparr>queue := rest\<rparr>)) = rest"
    by (simp add: process_item_def Let_def qemit_def log_exception_def reports
        split: option.splits)
  with q show "(process_item current_queue_item (st\<lparr>queue := rest\<rparr>), st)
      \<in> measure (\<lambda>st. length (queue st))"
    by simp
qed

declare execute_loop.simps [simp del]

text \<open>\<^verbatim>\<open>maya.mel.eval('$tmp = $gMainProgressBar')\<close> names Maya's main progress bar.\<close>

definition execute_queue :: "queue_state \<Rightarrow> queue_state" where
  "execute_queue st =
     execute_loop ((log_warning deprecated st)\<lparr>maya_progress_bar := Some ''$gMainProgressBar''\<rparr>)"

subsection \<open>What a drained queue is expected to show\<close>

text \<open>
  The steps Maya's progress bar receives for the percentages a job reports: each is
  the difference to the percentage before, starting from 0.
\<close>

fun deltas :: "int \<Rightarrow> int list \<Rightarrow> int list" where
  "deltas cur [] = []"
| "deltas cur (p # ps) = (p - cur) # deltas p ps"



subsection \<open>Observations on a world\<close>

text \<open>
  The calls that make up an engine's life cycle, and the projection of a trace on
  them.
\<close>

fun is_lifecycle :: "action \<Rightarrow> bool" where
  "is_lifecycle (DestroyCalled i) = True"
| "is_lifecycle (DestroyReturned i) = True"
| "is_lifecycle (StartEngineCalled n t c) = True"
| "is_lifecycle (StartEngineReturned i) = True"
| "is_lifecycle a = False"

definition lifecycle :: "action list \<Rightarrow> action list" where
  "lifecycle tr = filter is_lifecycle tr"

text \<open>
  A step from \<open>w\<close> to \<open>w'\<close> is quiet when it leaves the current engine and the menus
  alone and adds no life cycle call to the trace.
\<close>

definition quiet :: "world \<Rightarrow> world \<Rightarrow> bool" where
  "quiet w w' =
     (current_engine w' = current_engine w \<and> menus w' = menus w \<and>
      next_engine_id w' = next_engine_id w \<and>
      prefix (trace w) (trace w') \<and> lifecycle (trace w') = lifecycle (trace w))"

text \<open>
  The four entries a watcher on the default events puts into Maya's callback table
  when every registration succeeds, \<open>k\<close> being the first free message id.
\<close>

definition registered :: "nat \<Rightarrow> nat \<Rightarrow> (nat \<times> scene_event \<times> callback \<times> nat) list" where
  "registered k self =
     [(k, kAfterOpen, scene_event_cb, self), (Suc k, kAfterSave, scene_event_cb, self),
      (Suc (Suc k), kAfterNew, scene_event_cb, self),
      (Suc (Suc (Suc k)), kMayaExiting, maya_exiting_cb, self)]"

text \<open>
  The event watcher is armed when Maya holds a registration of
  \<open>__scene_event_callback\<close> for a scene event whose client data is a live watcher:
  the next such event reaches \<open>scene_event_callback\<close>.
\<close>

definition armed :: "world \<Rightarrow> bool" where
  "armed w =
     list_ex (\<lambda>c. fst (snd c) \<noteq> kMayaExiting \<and> fst (snd (snd c)) = scene_event_cb \<and>
                  watchers w (snd (snd (snd c))) \<noteq> None)
       (callbacks w)"

text \<open>
  The world after a run-once watcher with the closure \<open>cb\<close> has been built in \<open>w\<close>
  and all four of its registrations went through.
\<close>

definition one_shot :: "string \<times> tank_context option \<Rightarrow> world \<Rightarrow> world" where
  "one_shot cb w =
     w\<lparr>watchers := (watchers w)(next_watcher_id w \<mapsto>
           \<lparr>message_ids = [next_msg_id w, Suc (next_msg_id w), Suc (Suc (next_msg_id w)),
                            Suc (Suc (Suc (next_msg_id w)))],
            cb_fn = cb, scene_events = default_scene_events, run_once = True\<rparr>),
        next_watcher_id := Suc (next_watcher_id w),
        callbacks := callbacks w @ registered (next_msg_id w) (next_watcher_id w),
        next_msg_id := Suc (Suc (Suc (Suc (next_msg_id w)))),
        trace := trace w @
          [AddCallback kAfterOpen (next_msg_id w), AddCallback kAfterSave (Suc (next_msg_id w)),
           AddCallback kAfterNew (Suc (Suc (next_msg_id w))),
           AddCallback kMayaExiting (Suc (Suc (Suc (next_msg_id w))))]\<rparr>"

text \<open>The disabled indicator is the menu \<open>TankMenuDisabled\<close>.\<close>

definition disabled_shown :: "world \<Rightarrow> bool" where
  "disabled_shown w = menu_exists ''TankMenuDisabled'' w"

subsection \<open>Example inputs\<close>

text \<open>
  A host in which the open scene lies in the project \<open>/proj\<close>, every collaborator
  answers, and the platform is supported; the world before any event; and the
  world after the first event in that host, with the engine running for the shot.
\<close>

definition example_host :: host where
  "example_host =
     \<lparr>sceneName = ''/proj/seq01/shot010/scene.ma'',
      abspath = (\<lambda>p. p),
      tank_from_path = (\<lambda>p. if take 6 p = ''/proj/'' then Inr (Tk ''/proj'')
                             else Inl (Exn TankErrorCls ''not a Tank path'')),
      context_from_path = (\<lambda>t p hint. Inr (Context (Some ''proj'') (take 19 p))),
      start_engine_raises = (\<lambda>n t c. None),
      destroy_raises = (\<lambda>e. None),
      add_callback_raises = (\<lambda>ev. None),
      operatingSystem = ''linux64'',
      maya_version = ''2013 x64'',
      batch = False,
      init_error_is_tank_error = True\<rparr>"

definition initial_world :: world where
  "initial_world =
     \<lparr>current_engine = None, menus = {}, callbacks = [], next_msg_id = 0,
      watchers = Map.empty, next_watcher_id = 0, next_engine_id = 0, trace = []\<rparr>"

definition shot010 :: tank_context where
  "shot010 = Context (Some ''proj'') ''/proj/seq01/shot010''"

definition example_engine :: engine where
  "example_engine =
     \<lparr>engine_id = 0, instance_name = ''tk-maya'', engine_tk = Tk ''/proj'',
      engine_context = shot010, engine_watcher = Some 0, menu_handle = Some ''TankMenu''\<rparr>"

definition running_world :: world where
  "running_world =
     \<lparr>current_engine = Some example_engine, menus = {''TankMenu''},
      callbacks = registered 0 0, next_msg_id = Suc (Suc (Suc (Suc 0))),
      watchers = [0 \<mapsto> \<lparr>message_ids = [0, Suc 0, Suc (Suc 0), Suc (Suc (Suc 0))],
                          cb_fn = (''tk-maya'', Some shot010),
                          scene_events = default_scene_events, run_once = False\<rparr>],
      next_watcher_id = Suc 0, next_engine_id = Suc 0,
      trace = [TankFromPath ''/proj/seq01/shot010/scene.ma'',
               ContextFromPath (Tk ''/proj'') ''/proj/seq01/shot010/scene.ma'' None,
               StartEngineCalled ''tk-maya'' (Tk ''/proj'') shot010,
               LogDebug ''%s: Initializing...'', LogDebug ''Running Maya version %s'',
               AddCallback kAfterOpen 0, AddCallback kAfterSave (Suc 0),
               AddCallback kAfterNew (Suc (Suc 0)),
               AddCallback kMayaExiting (Suc (Suc (Suc 0))),
               LogDebug ''Registered open and save callbacks.'',
               CreateMenu ''TankMenu'', StartEngineReturned 0,
               LogDebug ''Launched new engine for context!'']\<rparr>"

text \<open>
  Variations of the example host: a second shot whose engine cannot be started, a
  context lookup that fails with an unexpected error, an interrupt during workspace
  lookup, an untitled scene, and a scene outside every project.
\<close>

definition shot020 :: tank_context where
  "shot020 = Context (Some ''proj'') ''/proj/seq01/shot020''"

definition failing_init_host :: host where
  "failing_init_host =
     example_host\<lparr>sceneName := ''/proj/seq01/shot020/scene.ma'',
                  start_engine_raises :=
                    (\<lambda>n t c. Some (Exn TankEngineInitErrorCls ''no environment''))\<rparr>"

definition broken_context_host :: host where
  "broken_context_host =
     example_host\<lparr>context_from_path := (\<lambda>t p hint. Inl (Exn ExceptionCls ''lookup failed''))\<rparr>"

definition interrupted_host :: host where
  "interrupted_host =
     example_host\<lparr>tank_from_path := (\<lambda>p. Inl (Exn BaseExceptionCls ''KeyboardInterrupt''))\<rparr>"




definition example_queue_state :: queue_state where
  "example_queue_state =
     \<lparr>queue = [], current_progress = 0, maya_progress_bar = None,
      store = [0 \<mapsto> [''path'' \<mapsto> PyStr ''/proj/scene.ma''], 1 \<mapsto> Map.empty],
      progress_trace = []\<rparr>"

section \<open>Properties\<close>

subsection \<open>The watcher\<close>

lemma stop_watching_fresh:
  "watchers w self = Some wt \<Longrightarrow> message_ids wt = [] \<Longrightarrow>
   stop_watching self w = (Inr (), w)"
  by (simp add: stop_watching_def fun_upd_idem)

lemma remove_callbacks_live:
  "distinct ids \<Longrightarrow> set ids \<subseteq> fst ` set (callbacks w) \<Longrightarrow>
   remove_callbacks ids w =
     (Inr (), w\<lparr>callbacks := filter (\<lambda>c. fst c \<notin> set ids) (callbacks w),
               trace := trace w @ map RemoveCallback ids\<rparr>)"
proof (induction ids arbitrary: w)
  case Nil
  then show ?case by simp
next
  case (Cons i ids)
  let ?w1 = "emit (RemoveCallback i) (w\<lparr>callbacks := filter (\<lambda>c. fst c \<noteq> i) (callbacks w)\<rparr>)"
  from Cons.prems have live: "i \<in> fst ` set (callbacks w)" by simp
  from Cons.prems have s: "set ids \<subseteq> fst ` set (callbacks ?w1)"
    by (fastforce simp: emit_def)
  from Cons.prems have d: "distinct ids" by simp
  from d s have "remove_callbacks ids ?w1 =
      (Inr (), ?w1\<lparr>callbacks := filter (\<lambda>c. fst c \<notin> set ids) (callbacks ?w1),
               trace := trace ?w1 @ map RemoveCallback ids\<rparr>)"
    by (rule Cons.IH)
  with live show ?case
    by (simp add: removeCallback_def emit_def conj_commute)
qed

text \<open>
  Building a watcher on the default events when every registration succeeds.
\<close>

lemma SceneEventWatcher_ok:
  assumes "\<forall>ev. add_callback_raises h ev = None"
  shows "SceneEventWatcher h cb default_scene_events once w =
     (Inr (next_watcher_id w),
      w\<lparr>watchers := (watchers w)(next_watcher_id w \<mapsto>
           \<lparr>message_ids = [next_msg_id w, Suc (next_msg_id w), Suc (Suc (next_msg_id w)),
                            Suc (Suc (Suc (next_msg_id w)))],
            cb_fn = cb, scene_events = default_scene_events, run_once = once\<rparr>),
         next_watcher_id := Suc (next_watcher_id w),
         callbacks := callbacks w @ registered (next_msg_id w) (next_watcher_id w),
         next_msg_id := Suc (Suc (Suc (Suc (next_msg_id w)))),
         trace := trace w @
           [AddCallback kAfterOpen (next_msg_id w), AddCallback kAfterSave (Suc (next_msg_id w)),
            AddCallback kAfterNew (Suc (Suc (next_msg_id w))),
            AddCallback kMayaExiting (Suc (Suc (Suc (next_msg_id w))))]\<rparr>)"
  using assms
  by (simp add: SceneEventWatcher_def start_watching_def stop_watching_def
      default_scene_events_def addCallback_def append_message_id_def emit_def registered_def
      Let_def)

text \<open>
  Claim C8. Stopping a watcher twice in a row: for a watcher whose message ids are
  distinct and registered (as \<open>start_watching\<close> leaves them), the first
  \<open>stop_watching\<close> returns normally, releases exactly the watcher's registrations
  and empties its list of ids; the second returns normally and changes nothing, so
  it releases nothing a second time.
\<close>

theorem stop_watching_twice:
  assumes "watchers w self = Some wt"
    and "distinct (message_ids wt)"
    and "set (message_ids wt) \<subseteq> fst ` set (callbacks w)"
  shows "\<exists>w1. stop_watching self w = (Inr (), w1)
           \<and> map_option message_ids (watchers w1 self) = Some []
           \<and> callbacks w1 = filter (\<lambda>c. fst c \<notin> set (message_ids wt)) (callbacks w)
           \<and> stop_watching self w1 = (Inr (), w1)"
  using assms
  by (simp add: stop_watching_def remove_callbacks_live fun_upd_idem)

text \<open>The watcher of the running engine of the example, stopped twice.\<close>

theorem stop_watching_twice_witness:
  "watchers running_world 0 =
     Some \<lparr>message_ids = [0, Suc 0, Suc (Suc 0), Suc (Suc (Suc 0))],
           cb_fn = (''tk-maya'', Some shot010),
           scene_events = default_scene_events, run_once = False\<rparr>
   \<and> (\<exists>w1. stop_watching 0 running_world = (Inr (), w1)
           \<and> map_option message_ids (watchers w1 0) = Some []
           \<and> callbacks w1 = []
           \<and> stop_watching 0 w1 = (Inr (), w1))"
proof -
  have h: "watchers running_world 0 =
     Some \<lparr>message_ids = [0, Suc 0, Suc (Suc 0), Suc (Suc (Suc 0))],
           cb_fn = (''tk-maya'', Some shot010),
           scene_events = default_scene_events, run_once = False\<rparr>"
    by (simp add: running_world_def)
  have c: "callbacks running_world = registered 0 0"
    by (simp add: running_world_def)
  from stop_watching_twice [OF h] h c show ?thesis
    by (simp add: registered_def)
qed

subsection \<open>Steps that leave the engine alone\<close>

lemma quiet_refl [simp]: "quiet w w"
  by (simp add: quiet_def)

lemma quiet_trans: "quiet w w1 \<Longrightarrow> quiet w1 w2 \<Longrightarrow> quiet w w2"
  by (auto simp: quiet_def)

lemma quiet_emit: "\<not> is_lifecycle a \<Longrightarrow> quiet w w1 \<Longrightarrow> quiet w (emit a w1)"
  by (auto simp: quiet_def emit_def lifecycle_def)

lemma quiet_fields [simp]:
  "quiet w (w1\<lparr>callbacks := cs\<rparr>) = quiet w w1"
  "quiet w (w1\<lparr>watchers := ws\<rparr>) = quiet w w1"
  "quiet w (w1\<lparr>next_msg_id := k\<rparr>) = quiet w w1"
  "quiet w (w1\<lparr>next_watcher_id := j\<rparr>) = quiet w w1"
  by (simp_all add: quiet_def)

lemma quiet_removeCallback: "quiet w (snd (removeCallback i w))"
  by (simp add: removeCallback_def quiet_emit)

lemma quiet_remove_callbacks: "quiet w (snd (remove_callbacks ids w))"
proof (induction ids arbitrary: w)
  case Nil
  show ?case by simp
next
  case (Cons i ids)
  obtain r w1 where r: "removeCallback i w = (r, w1)"
    by force
  with quiet_removeCallback [of w i] have q: "quiet w w1"
    by simp
  show ?case
  proof (cases r)
    case (Inl e)
    with r q show ?thesis by simp
  next
    case (Inr u)
    with r q Cons.IH [of w1] show ?thesis
      by (auto intro: quiet_trans)
  qed
qed

lemma quiet_stop_watching: "quiet w (snd (stop_watching self w))"
proof (cases "watchers w self")
  case None
  then show ?thesis by (simp add: stop_watching_def)
next
  case (Some wt)
  obtain r w1 where r: "remove_callbacks (message_ids wt) w = (r, w1)"
    by force
  with quiet_remove_callbacks [of w "message_ids wt"] have "quiet w w1"
    by simp
  with Some r show ?thesis
    by (cases r) (simp_all add: stop_watching_def)
qed

lemma quiet_append_message_id: "quiet w (append_message_id self i w)"
  by (simp add: append_message_id_def split: option.splits)

lemma quiet_addCallback: "quiet w (snd (addCallback h ev fn self w))"
  by (simp add: addCallback_def quiet_emit split: option.splits)

lemma quiet_add_scene_callbacks: "quiet w (snd (add_scene_callbacks h self evs w))"
proof (induction evs arbitrary: w)
  case Nil
  show ?case by simp
next
  case (Cons ev evs)
  obtain r w1 where r: "addCallback h ev scene_event_cb self w = (r, w1)"
    by force
  with quiet_addCallback [of w h ev scene_event_cb self] have q: "quiet w w1"
    by simp
  show ?case
  proof (cases r)
    case (Inl e)
    with r q Cons.IH [of w1] show ?thesis
      by (auto intro: quiet_trans)
  next
    case (Inr i)
    from q quiet_append_message_id [of w1 self i] have "quiet w (append_message_id self i w1)"
      by (rule quiet_trans)
    with Inr r Cons.IH [of "append_message_id self i w1"] show ?thesis
      by (auto intro: quiet_trans)
  qed
qed

lemma quiet_start_watching: "quiet w (snd (start_watching h self w))"
proof -
  obtain r1 w1 where s: "stop_watching self w = (r1, w1)"
    by force
  with quiet_stop_watching [of w self] have q1: "quiet w w1"
    by simp
  show ?thesis
  proof (cases r1)
    case (Inl e)
    with s q1 show ?thesis by (simp add: start_watching_def)
  next
    case (Inr u)
    show ?thesis
    proof (cases "watchers w1 self")
      case None
      with s Inr q1 show ?thesis by (simp add: start_watching_def)
    next
      case (Some wt)
      obtain r2 w2 where a: "add_scene_callbacks h self (scene_events wt) w1 = (r2, w2)"
        by force
      with quiet_add_scene_callbacks [of w1 h self "scene_events wt"] q1 have q2: "quiet w w2"
        by (auto intro: quiet_trans)
      show ?thesis
      proof (cases r2)
        case (Inl e)
        with s Inr Some a q2 show ?thesis by (simp add: start_watching_def)
      next
        case Inr2: (Inr u2)
        obtain r3 w3 where x: "addCallback h kMayaExiting maya_exiting_cb self w2 = (r3, w3)"
          by force
        with quiet_addCallback [of w2 h kMayaExiting maya_exiting_cb self] q2
        have q3: "quiet w w3"
          by (auto intro: quiet_trans)
        show ?thesis
        proof (cases r3)
          case (Inl e)
          with s Inr Some a Inr2 x q3 show ?thesis by (simp add: start_watching_def)
        next
          case Inr3: (Inr i)
          from q3 quiet_append_message_id [of w3 self i]
          have "quiet w (append_message_id self i w3)"
            by (rule quiet_trans)
          with s Inr Some a Inr2 x Inr3 show ?thesis by (simp add: start_watching_def)
        qed
      qed
    qed
  qed
qed

lemma quiet_SceneEventWatcher: "quiet w (snd (SceneEventWatcher h cb evs once w))"
proof -
  let ?w1 = "w\<lparr>watchers := (watchers w)(next_watcher_id w \<mapsto>
                 \<lparr>message_ids = [], cb_fn = cb, scene_events = evs, run_once = once\<rparr>),
               next_watcher_id := Suc (next_watcher_id w)\<rparr>"
  obtain r w2 where s: "start_watching h (next_watcher_id w) ?w1 = (r, w2)"
    by force
  have a: "quiet w ?w1"
    by (simp add: quiet_def)
  from quiet_start_watching [of ?w1 h "next_watcher_id w"] s have b: "quiet ?w1 w2"
    by simp
  from a b have "quiet w w2"
    by (rule quiet_trans)
  with s show ?thesis
    by (cases r) (simp_all add: SceneEventWatcher_def Let_def)
qed

lemma quiet_log_debug: "quiet w (log_debug m w)"
  by (simp add: log_debug_def quiet_emit)

lemma quiet_init_engine: "quiet w (snd (init_engine h self w))"
proof -
  let ?w2 = "log_debug ''Running Maya version %s'' (log_debug ''%s: Initializing...'' w)"
  have q2: "quiet w ?w2"
    by (simp add: log_debug_def quiet_emit)
  obtain r w3 where s: "SceneEventWatcher h (instance_name self, Some (engine_context self))
                  default_scene_events False ?w2 = (r, w3)"
    by force
  with quiet_SceneEventWatcher [of ?w2 h "(instance_name self, Some (engine_context self))"
      default_scene_events False]
  have "quiet ?w2 w3"
    by simp
  with q2 have q3: "quiet w w3"
    by (rule quiet_trans)
  then have "quiet w (log_debug ''Registered open and save callbacks.'' w3)"
    by (simp add: log_debug_def quiet_emit)
  with s q2 q3 show ?thesis
    by (cases r) (simp_all add: init_engine_def Let_def quiet_log_debug)
qed

text \<open>What start_engine leaves behind.\<close>

lemma lifecycle_simps [simp]:
  "lifecycle [] = []"
  "lifecycle (xs @ ys) = lifecycle xs @ lifecycle ys"
  "lifecycle (a # xs) = (if is_lifecycle a then a # lifecycle xs else lifecycle xs)"
  by (simp_all add: lifecycle_def)

lemma start_engine_cases:
  assumes "start_engine h n t c w = (r, w')"
  obtains (refused) e where "start_engine_raises h n t c = Some e" "r = Inl e"
      "w' = emit (StartEngineCalled n t c) w"
  | (init) e where "r = Inl e" "quiet (emit (StartEngineCalled n t c) w) (w'\<lparr>next_engine_id := next_engine_id w\<rparr>)"
  | (started) self w3 where "r = Inr self"
      "quiet (emit (StartEngineCalled n t c) w) (w3\<lparr>next_engine_id := next_engine_id w\<rparr>)"
      "w' = emit (StartEngineReturned (engine_id self))
              ((if has_ui h then menu_create ''TankMenu'' w3 else w3)\<lparr>current_engine := Some self\<rparr>)"
proof (cases "start_engine_raises h n t c")
  case (Some e)
  with assms have "r = Inl e" "w' = emit (StartEngineCalled n t c) w"
    by (simp_all add: start_engine_def Let_def)
  with Some show ?thesis by (rule refused)
next
  case None
  let ?w1 = "emit (StartEngineCalled n t c) w"
  let ?self = "\<lparr>engine_id = next_engine_id ?w1, instance_name = n,
                        engine_tk = t, engine_context = c,
                        engine_watcher = None, menu_handle = None\<rparr>"
  let ?w2 = "?w1\<lparr>next_engine_id := Suc (next_engine_id ?w1)\<rparr>"
  obtain r3 w3 where i: "init_engine h ?self ?w2 = (r3, w3)"
    by force
  with quiet_init_engine [of ?w2 h ?self] have "quiet ?w2 w3"
    by simp
  then have q: "quiet ?w1 (w3\<lparr>next_engine_id := next_engine_id w\<rparr>)"
    by (simp add: quiet_def emit_def)
  show ?thesis
  proof (cases r3)
    case (Inl e)
    with None i assms have "r = Inl e" "w' = w3"
      by (simp_all add: start_engine_def Let_def)
    with q show ?thesis by (simp add: init)
  next
    case (Inr self1)
    show ?thesis
    proof (cases "has_ui h")
      case True
      with Inr None i assms have "r = Inr (self1\<lparr>menu_handle := Some ''TankMenu''\<rparr>)"
        "w' = emit (StartEngineReturned (engine_id (self1\<lparr>menu_handle := Some ''TankMenu''\<rparr>)))
              ((if has_ui h then menu_create ''TankMenu'' w3 else w3)
                 \<lparr>current_engine := Some (self1\<lparr>menu_handle := Some ''TankMenu''\<rparr>)\<rparr>)"
        by (simp_all add: start_engine_def Let_def post_app_init_def)
      note rw = this
      show ?thesis by (rule started [OF rw(1) q rw(2)])
    next
      case False
      with Inr None i assms have "r = Inr self1"
        "w' = emit (StartEngineReturned (engine_id self1))
              ((if has_ui h then menu_create ''TankMenu'' w3 else w3)
                 \<lparr>current_engine := Some self1\<rparr>)"
        by (simp_all add: start_engine_def Let_def post_app_init_def)
      note rw = this
      show ?thesis by (rule started [OF rw(1) q rw(2)])
    qed
  qed
qed

lemma start_engine_effect:
  assumes "start_engine h n t c w = (r, w')"
  shows "lifecycle (trace w') =
           lifecycle (trace w) @ StartEngineCalled n t c #
             (case r of Inl e \<Rightarrow> [] | Inr e \<Rightarrow> [StartEngineReturned (engine_id e)])"
    and "current_engine w' = (case r of Inl e \<Rightarrow> current_engine w | Inr e \<Rightarrow> Some e)"
    and "menus w' = (case r of Inl e \<Rightarrow> menus w
                      | Inr e \<Rightarrow> if has_ui h then insert ''TankMenu'' (menus w) else menus w)"
    and "prefix (trace w) (trace w')"
proof -
  have "lifecycle (trace w') =
           lifecycle (trace w) @ StartEngineCalled n t c #
             (case r of Inl e \<Rightarrow> [] | Inr e \<Rightarrow> [StartEngineReturned (engine_id e)])
      \<and> current_engine w' = (case r of Inl e \<Rightarrow> current_engine w | Inr e \<Rightarrow> Some e)
      \<and> menus w' = (case r of Inl e \<Rightarrow> menus w
                      | Inr e \<Rightarrow> if has_ui h then insert ''TankMenu'' (menus w) else menus w)
      \<and> prefix (trace w) (trace w')"
    using assms
  proof (cases rule: start_engine_cases)
    case (refused e)
    then show ?thesis by (simp add: emit_def)
  next
    case (init e)
    from init(2) have "prefix (trace w) (trace w')"
      by (simp add: quiet_def emit_def) (metis append_prefixD)
    with init show ?thesis by (simp add: quiet_def emit_def)
  next
    case (started self w3)
    from started(2) have "prefix (trace w) (trace w3)"
      by (simp add: quiet_def emit_def) (metis append_prefixD)
    then have "prefix (trace w) (trace w3 @ [CreateMenu ''TankMenu'', StartEngineReturned (engine_id self)])"
      "prefix (trace w) (trace w3 @ [StartEngineReturned (engine_id self)])"
      by simp_all
    with started show ?thesis
      by (cases "has_ui h") (simp_all add: quiet_def emit_def menu_create_def)
  qed
  then show "lifecycle (trace w') =
           lifecycle (trace w) @ StartEngineCalled n t c #
             (case r of Inl e \<Rightarrow> [] | Inr e \<Rightarrow> [StartEngineReturned (engine_id e)])"
    and "current_engine w' = (case r of Inl e \<Rightarrow> current_engine w | Inr e \<Rightarrow> Some e)"
    and "menus w' = (case r of Inl e \<Rightarrow> menus w
                      | Inr e \<Rightarrow> if has_ui h then insert ''TankMenu'' (menus w) else menus w)"
    and "prefix (trace w) (trace w')"
    by simp_all
qed


lemma destroy_cases:
  assumes "destroy h ce w = (r, w')"
  obtains (raised) e where "r = Inl e" "quiet (emit (DestroyCalled (engine_id ce)) w) w'"
  | (destroyed) w2 m where "r = Inr ()" "quiet (emit (DestroyCalled (engine_id ce)) w) w2"
      "w' = emit (DestroyReturned (engine_id ce))
              ((if menu_exists m w2 then deleteUI m w2 else w2)\<lparr>current_engine := None\<rparr>)"
proof (cases "destroy_raises h ce")
  case (Some e)
  with assms have "r = Inl e" "quiet (emit (DestroyCalled (engine_id ce)) w) w'"
    by (auto simp: destroy_def Let_def)
  then show ?thesis by (rule raised)
next
  case None
  let ?w0 = "emit (DestroyCalled (engine_id ce)) w"
  let ?w1 = "log_debug ''%s: Destroying...'' ?w0"
  have q1: "quiet ?w0 ?w1"
    by (rule quiet_log_debug)
  show ?thesis
  proof (cases "engine_watcher ce")
    case nw: None
    with None assms q1 have "r = Inl no_such_object" "quiet ?w0 w'"
      by (auto simp: destroy_def destroy_engine_def Let_def)
    then show ?thesis by (rule raised)
  next
    case (Some wref)
    obtain r2 w2 where s: "stop_watching wref ?w1 = (r2, w2)"
      by force
    with quiet_stop_watching [of ?w1 wref] have "quiet ?w1 w2"
      by simp
    with q1 have q2: "quiet ?w0 w2"
      by (rule quiet_trans)
    show ?thesis
    proof (cases r2)
      case (Inl e)
      with None Some s assms q2 have "r = Inl e" "quiet ?w0 w'"
        by (auto simp: destroy_def destroy_engine_def Let_def)
      then show ?thesis by (rule raised)
    next
      case (Inr u)
      show ?thesis
      proof (cases "menu_handle ce")
        case nm: None
        with None Some s Inr assms q2 have "r = Inl no_such_object" "quiet ?w0 w'"
          by (auto simp: destroy_def destroy_engine_def Let_def)
        then show ?thesis by (rule raised)
      next
        case sm: (Some m)
        with None Some s Inr assms have "r = Inr ()"
          "w' = emit (DestroyReturned (engine_id ce))
              ((if menu_exists m w2 then deleteUI m w2 else w2)\<lparr>current_engine := None\<rparr>)"
          by (auto simp: destroy_def destroy_engine_def Let_def)
        note rw = this
        show ?thesis by (rule destroyed [OF rw(1) q2 rw(2)])
      qed
    qed
  qed
qed

lemma destroy_effect:
  assumes "destroy h ce w = (r, w')"
  shows "lifecycle (trace w') =
           lifecycle (trace w) @ DestroyCalled (engine_id ce) #
             (case r of Inl e \<Rightarrow> [] | Inr u \<Rightarrow> [DestroyReturned (engine_id ce)])
      \<and> current_engine w' = (case r of Inl e \<Rightarrow> current_engine w | Inr u \<Rightarrow> None)
      \<and> menus w' \<subseteq> menus w
      \<and> prefix (trace w) (trace w')"
  using assms
proof (cases rule: destroy_cases)
  case (raised e)
  from raised(2) have "prefix (trace w) (trace w')"
    by (simp add: quiet_def emit_def) (metis append_prefixD)
  with raised show ?thesis by (simp add: quiet_def emit_def)
next
  case (destroyed w2 m)
  from destroyed(2) have "prefix (trace w) (trace w2)"
    by (simp add: quiet_def emit_def) (metis append_prefixD)
  then have "prefix (trace w) (trace w2 @ [DeleteUI m, DestroyReturned (engine_id ce)])"
      "prefix (trace w) (trace w2 @ [DestroyReturned (engine_id ce)])"
    by simp_all
  with destroyed show ?thesis
    by (cases "menu_exists m w2") (auto simp add: quiet_def emit_def deleteUI_def)
qed

text \<open>
  Whether a teardown completes depends on Maya's callback table and on the watcher
  objects only.
\<close>

lemma remove_callbacks_cong:
  "callbacks w0 = callbacks w \<Longrightarrow> watchers w0 = watchers w \<Longrightarrow>
   fst (remove_callbacks ids w0) = fst (remove_callbacks ids w)
   \<and> callbacks (snd (remove_callbacks ids w0)) = callbacks (snd (remove_callbacks ids w))
   \<and> watchers (snd (remove_callbacks ids w0)) = watchers (snd (remove_callbacks ids w))"
proof (induction ids arbitrary: w0 w)
  case Nil
  then show ?case by simp
next
  case (Cons i ids)
  show ?case
  proof (cases "i \<in> fst ` set (callbacks w)")
    case False
    with Cons.prems show ?thesis by (simp add: removeCallback_def)
  next
    case True
    let ?a = "emit (RemoveCallback i) (w0\<lparr>callbacks := filter (\<lambda>c. fst c \<noteq> i) (callbacks w0)\<rparr>)"
    let ?b = "emit (RemoveCallback i) (w\<lparr>callbacks := filter (\<lambda>c. fst c \<noteq> i) (callbacks w)\<rparr>)"
    from Cons.prems have c: "callbacks ?a = callbacks ?b" and d: "watchers ?a = watchers ?b"
      by (simp_all add: emit_def)
    have ra: "remove_callbacks (i # ids) w0 = remove_callbacks ids ?a"
      using True Cons.prems by (simp add: removeCallback_def)
    have rb: "remove_callbacks (i # ids) w = remove_callbacks ids ?b"
      using True by (simp add: removeCallback_def)
    from Cons.IH [OF c d] show ?thesis
      unfolding ra rb .
  qed
qed

lemma stop_watching_cong:
  assumes "callbacks w0 = callbacks w" and "watchers w0 = watchers w"
  shows "fst (stop_watching wref w0) = fst (stop_watching wref w)"
proof (cases "watchers w wref")
  case None
  with assms show ?thesis by (simp add: stop_watching_def)
next
  case (Some wt)
  have "fst (stop_watching wref x) = fst (remove_callbacks (message_ids wt) x)"
    if "watchers x wref = Some wt" for x
    using that by (simp add: stop_watching_def split: prod.splits sum.splits)
  with Some assms remove_callbacks_cong [OF assms, of "message_ids wt"] show ?thesis
    by simp
qed

lemma fst_destroy:
  "fst (destroy h ce x) =
     (case destroy_raises h ce of
        Some e \<Rightarrow> Inl e
      | None \<Rightarrow>
          (case engine_watcher ce of
             None \<Rightarrow> Inl no_such_object
           | Some wref \<Rightarrow>
               (case fst (stop_watching wref
                       (log_debug ''%s: Destroying...'' (emit (DestroyCalled (engine_id ce)) x))) of
                  Inl e \<Rightarrow> Inl e
                | Inr u \<Rightarrow>
                    (case menu_handle ce of None \<Rightarrow> Inl no_such_object | Some m \<Rightarrow> Inr ()))))"
  by (auto simp add: destroy_def destroy_engine_def Let_def
      split: option.splits prod.splits sum.splits)

lemma destroy_cong:
  assumes "callbacks w0 = callbacks w" and "watchers w0 = watchers w"
  shows "fst (destroy h ce w0) = fst (destroy h ce w)"
proof -
  let ?a = "log_debug ''%s: Destroying...'' (emit (DestroyCalled (engine_id ce)) w0)"
  let ?b = "log_debug ''%s: Destroying...'' (emit (DestroyCalled (engine_id ce)) w)"
  from assms have "callbacks ?a = callbacks ?b" "watchers ?a = watchers ?b"
    by (simp_all add: emit_def log_debug_def)
  then have "fst (stop_watching wref ?a) = fst (stop_watching wref ?b)" for wref
    by (rule stop_watching_cong)
  then show ?thesis
    by (simp add: fst_destroy split: option.splits)
qed

subsection \<open>The coordinator\<close>


text \<open>The first event in the example host starts the engine.\<close>

lemma scenario_B:
  "on_scene_event_callback example_host ''tk-maya'' None initial_world = (Inr (), running_world)"
  by (simp add: running_world_def on_scene_event_callback_def refresh_engine_def
      start_engine_def init_engine_def post_app_init_def has_ui_def
      SceneEventWatcher_ok supported_version_def
      example_host_def initial_world_def menu_exists_def emit_def log_debug_def
      menu_create_def Let_def shot010_def example_engine_def)

lemma armed_fields [simp]:
  "armed (w\<lparr>trace := tr\<rparr>) = armed w"
  "armed (w\<lparr>menus := ms\<rparr>) = armed w"
  "armed (w\<lparr>current_engine := ce\<rparr>) = armed w"
  "armed (w\<lparr>next_engine_id := k\<rparr>) = armed w"
  "armed (w\<lparr>next_msg_id := k\<rparr>) = armed w"
  "armed (w\<lparr>next_watcher_id := k\<rparr>) = armed w"
  by (simp_all add: armed_def)



lemma start_engine_ok:
  assumes "start_engine_raises h n t c = None"
    and "operatingSystem h \<in> set [''mac'', ''win64'', ''linux64'']"
    and "supported_version (maya_version h)"
    and "project c \<noteq> None"
    and "\<forall>ev. add_callback_raises h ev = None"
  shows "\<exists>e w'. start_engine h n t c w = (Inr e, w')"
  using assms
  by (cases "has_ui h")
     (auto simp add: start_engine_def init_engine_def Let_def SceneEventWatcher_ok
          post_app_init_def)


text \<open>The world in which a resolved context is acted on.\<close>

lemma refresh_engine_resolved:
  fixes h w prev_context t
  defines "p \<equiv> abspath h (sceneName h)"
  defines "w3 \<equiv> emit (ContextFromPath t p prev_context)
                  (emit (TankFromPath p)
                    (if menu_exists ''TankMenuDisabled'' w
                     then deleteUI ''TankMenuDisabled'' w else w))"
  assumes "sceneName h \<noteq> []"
    and "tank_from_path h p = Inr t"
    and "context_from_path h t p prev_context = Inr ctx"
  shows "refresh_engine h engine_name prev_context w =
     (if current_engine w \<noteq> None \<and> Some ctx = prev_context then (Inr (current_engine w), w3)
      else
        (case (case current_engine w of
                 None \<Rightarrow> (Inr (), w3)
               | Some ce \<Rightarrow>
                   destroy h ce
                     (log_debug ''New context: %s''
                       (log_debug ''Prev context: %s''
                         (log_debug ''Ready to switch to context because of scene event !''
                            w3)))) of
           (Inl e, w4) \<Rightarrow> (Inl e, w4)
         | (Inr u, w4) \<Rightarrow>
             (case start_engine h engine_name t ctx w4 of
                (Inl e, w5) \<Rightarrow>
                  if is_TankEngineInitError e
                  then (Inr None,
                        create_tank_disabled_menu
                          (emit (DisplayInfo (''Tank Engine cannot be started: '' @ msg e)) w5))
                  else (Inl e, w5)
              | (Inr new_engine, w5) \<Rightarrow>
                  (Inr (Some new_engine),
                   log_debug ''Launched new engine for context!'' w5))))"
    and "current_engine w3 = current_engine w"
    and "callbacks w3 = callbacks w"
    and "watchers w3 = watchers w"
    and "menus w3 = menus w - {''TankMenuDisabled''}"
    and "lifecycle (trace w3) = lifecycle (trace w)"
    and "prefix (trace w) (trace w3)"
proof -
  show "refresh_engine h engine_name prev_context w =
     (if current_engine w \<noteq> None \<and> Some ctx = prev_context then (Inr (current_engine w), w3)
      else
        (case (case current_engine w of
                 None \<Rightarrow> (Inr (), w3)
               | Some ce \<Rightarrow>
                   destroy h ce
                     (log_debug ''New context: %s''
                       (log_debug ''Prev context: %s''
                         (log_debug ''Ready to switch to context because of scene event !''
                            w3)))) of
           (Inl e, w4) \<Rightarrow> (Inl e, w4)
         | (Inr u, w4) \<Rightarrow>
             (case start_engine h engine_name t ctx w4 of
                (Inl e, w5) \<Rightarrow>
                  if is_TankEngineInitError e
                  then (Inr None,
                        create_tank_disabled_menu
                          (emit (DisplayInfo (''Tank Engine cannot be started: '' @ msg e)) w5))
                  else (Inl e, w5)
              | (Inr new_engine, w5) \<Rightarrow>
                  (Inr (Some new_engine),
                   log_debug ''Launched new engine for context!'' w5))))"
    using assms(3-) unfolding p_def w3_def
    by (simp add: refresh_engine_def Let_def)
  show "current_engine w3 = current_engine w" "callbacks w3 = callbacks w"
    "watchers w3 = watchers w" "menus w3 = menus w - {''TankMenuDisabled''}"
    "lifecycle (trace w3) = lifecycle (trace w)" "prefix (trace w) (trace w3)"
    by (simp_all add: w3_def emit_def deleteUI_def menu_exists_def)
qed




text \<open>
  Claim C4. When the scene's path resolves to no workspace (\<open>tank_from_path\<close>
  raises tank.TankError), \<open>refresh_engine\<close> returns the current engine as it is:
  the engine stays current, its watcher and Maya's callback table are untouched,
  no destroy and no start is called, and the disabled menu is rendered. With no
  engine running this is the disabled state: no engine, indicator shown.
\<close>

theorem unresolvable_keeps_engine:
  assumes "sceneName h \<noteq> []"
    and "tank_from_path h (abspath h (sceneName h)) = Inl e"
    and "is_TankError h e"
  shows "fst (refresh_engine h engine_name prev_context w) = Inr (current_engine w)
       \<and> current_engine (snd (refresh_engine h engine_name prev_context w)) = current_engine w
       \<and> callbacks (snd (refresh_engine h engine_name prev_context w)) = callbacks w
       \<and> watchers (snd (refresh_engine h engine_name prev_context w)) = watchers w
       \<and> lifecycle (trace (snd (refresh_engine h engine_name prev_context w))) =
           lifecycle (trace w)
       \<and> disabled_shown (snd (refresh_engine h engine_name prev_context w))"
  using assms
  by (simp add: refresh_engine_def Let_def disabled_shown_def menu_exists_def deleteUI_def
      emit_def create_tank_disabled_menu_def menu_create_def)


theorem unresolvable_keeps_engine_witness:
  "sceneName (example_host\<lparr>sceneName := ''/elsewhere/scene.ma''\<rparr>) \<noteq> []
   \<and> fst (refresh_engine (example_host\<lparr>sceneName := ''/elsewhere/scene.ma''\<rparr>) ''tk-maya''
            (Some shot010) running_world) = Inr (Some example_engine)
   \<and> current_engine (snd (refresh_engine
            (example_host\<lparr>sceneName := ''/elsewhere/scene.ma''\<rparr>) ''tk-maya''
            (Some shot010) running_world)) = Some example_engine
   \<and> disabled_shown (snd (refresh_engine
            (example_host\<lparr>sceneName := ''/elsewhere/scene.ma''\<rparr>) ''tk-maya''
            (Some shot010) running_world))"
  using unresolvable_keeps_engine
    [of "example_host\<lparr>sceneName := ''/elsewhere/scene.ma''\<rparr>"
        "Exn TankErrorCls ''not a Tank path''" "''tk-maya''" "Some shot010" running_world]
  by (simp add: running_world_def example_host_def is_TankError_def)

text \<open>
  Claim C9. With no engine running, a scene whose context equals the previous
  context does not take the shortcut: \<open>refresh_engine\<close> calls \<open>start_engine\<close> for
  that context (and calls no destroy), and when the start goes through, the new
  engine is returned and current. This is the retry after an earlier failed start.
\<close>

theorem retry_without_engine:
  assumes "current_engine w = None"
    and "sceneName h \<noteq> []"
    and "tank_from_path h (abspath h (sceneName h)) = Inr t"
    and "context_from_path h t (abspath h (sceneName h)) (Some ctx) = Inr ctx"
  shows "lifecycle (trace (snd (refresh_engine h engine_name (Some ctx) w))) =
           lifecycle (trace w) @ StartEngineCalled engine_name t ctx #
             (case fst (refresh_engine h engine_name (Some ctx) w) of
                Inr (Some e) \<Rightarrow> [StartEngineReturned (engine_id e)]
              | _ \<Rightarrow> [])
       \<and> (start_engine_raises h engine_name t ctx = None
            \<and> operatingSystem h \<in> set [''mac'', ''win64'', ''linux64'']
            \<and> supported_version (maya_version h) \<and> project ctx \<noteq> None
            \<and> (\<forall>ev. add_callback_raises h ev = None)
          \<longrightarrow> (\<exists>e. fst (refresh_engine h engine_name (Some ctx) w) = Inr (Some e)
                  \<and> engine_context e = ctx
                  \<and> current_engine (snd (refresh_engine h engine_name (Some ctx) w)) = Some e))"
proof -
  let ?p = "abspath h (sceneName h)"
  let ?w3 = "emit (ContextFromPath t ?p (Some ctx))
                  (emit (TankFromPath ?p)
                    (if menu_exists ''TankMenuDisabled'' w
                     then deleteUI ''TankMenuDisabled'' w else w))"
  note rs = refresh_engine_resolved [OF assms(2-4)]
  obtain r5 w5 where s: "start_engine h engine_name t ctx ?w3 = (r5, w5)"
    by force
  note eff = start_engine_effect [OF s]
  show ?thesis
  proof (cases r5)
    case (Inl e)
    with assms(1) s rs(1) have
      "refresh_engine h engine_name (Some ctx) w =
         (if is_TankEngineInitError e
          then (Inr None,
                create_tank_disabled_menu
                  (emit (DisplayInfo (''Tank Engine cannot be started: '' @ msg e)) w5))
          else (Inl e, w5))"
      by simp
    moreover from Inl s have "\<not> (start_engine_raises h engine_name t ctx = None
            \<and> operatingSystem h \<in> set [''mac'', ''win64'', ''linux64'']
            \<and> supported_version (maya_version h) \<and> project ctx \<noteq> None
            \<and> (\<forall>ev. add_callback_raises h ev = None))"
      using start_engine_ok [of h engine_name t ctx ?w3] by auto
    ultimately show ?thesis
      using Inl eff(1) rs(6)
      by (simp add: create_tank_disabled_menu_def emit_def menu_create_def deleteUI_def)
  next
    case (Inr e)
    with assms(1) s rs(1) have
      "refresh_engine h engine_name (Some ctx) w =
         (Inr (Some e), log_debug ''Launched new engine for context!'' w5)"
      by simp
    moreover from Inr s have "engine_context e = ctx"
      by (auto simp add: start_engine_def init_engine_def Let_def post_app_init_def
          split: option.splits if_splits prod.splits sum.splits)
    ultimately show ?thesis
      using Inr eff(1,2) rs(6)
      by (simp add: log_debug_def emit_def)
  qed
qed


theorem retry_without_engine_witness:
  "current_engine initial_world = None
   \<and> (\<exists>e. fst (refresh_engine example_host ''tk-maya'' (Some shot010) initial_world) =
             Inr (Some e)
         \<and> engine_context e = shot010
         \<and> lifecycle (trace (snd (refresh_engine example_host ''tk-maya'' (Some shot010)
               initial_world))) =
             [StartEngineCalled ''tk-maya'' (Tk ''/proj'') shot010,
              StartEngineReturned (engine_id e)])"
proof -
  have h: "current_engine initial_world = None" "sceneName example_host \<noteq> []"
    "tank_from_path example_host (abspath example_host (sceneName example_host)) =
       Inr (Tk ''/proj'')"
    "context_from_path example_host (Tk ''/proj'')
       (abspath example_host (sceneName example_host)) (Some shot010) = Inr shot010"
    by (simp_all add: initial_world_def example_host_def shot010_def)
  have ok: "start_engine_raises example_host ''tk-maya'' (Tk ''/proj'') shot010 = None
      \<and> operatingSystem example_host \<in> set [''mac'', ''win64'', ''linux64'']
      \<and> supported_version (maya_version example_host) \<and> project shot010 \<noteq> None
      \<and> (\<forall>ev. add_callback_raises example_host ev = None)"
    by (simp add: example_host_def shot010_def supported_version_def)
  from retry_without_engine [OF h, of "''tk-maya''"] ok
  obtain e where e: "fst (refresh_engine example_host ''tk-maya'' (Some shot010) initial_world) =
             Inr (Some e)" "engine_context e = shot010"
    by blast
  from retry_without_engine [OF h, of "''tk-maya''"] e h(1) show ?thesis
    by (simp add: initial_world_def)
qed

text \<open>
  Claim C3. When the resolved context differs from the previous one while an engine
  is running, the life cycle calls of the event are, in this order: destroy of the
  running engine is called; if it completes (which depends on Maya's callback table
  and the engine's watcher only, so it can be told from the world before the event),
  its return is followed by the call of \<open>start_engine\<close> for the new context; if it
  raises, \<open>start_engine\<close> is not called at all.
\<close>

theorem destroy_before_start:
  assumes "sceneName h \<noteq> []"
    and "tank_from_path h (abspath h (sceneName h)) = Inr t"
    and "context_from_path h t (abspath h (sceneName h)) prev_context = Inr ctx"
    and "current_engine w = Some ce"
    and "Some ctx \<noteq> prev_context"
  shows "lifecycle (trace (snd (refresh_engine h engine_name prev_context w))) =
           lifecycle (trace w) @ DestroyCalled (engine_id ce) #
             (if fst (destroy h ce w) = Inr ()
              then DestroyReturned (engine_id ce) # StartEngineCalled engine_name t ctx #
                     (case fst (refresh_engine h engine_name prev_context w) of
                        Inr (Some e) \<Rightarrow> [StartEngineReturned (engine_id e)]
                      | _ \<Rightarrow> [])
              else [])"
proof -
  let ?p = "abspath h (sceneName h)"
  let ?w3 = "emit (ContextFromPath t ?p prev_context)
                  (emit (TankFromPath ?p)
                    (if menu_exists ''TankMenuDisabled'' w
                     then deleteUI ''TankMenuDisabled'' w else w))"
  let ?w3c = "log_debug ''New context: %s''
                (log_debug ''Prev context: %s''
                  (log_debug ''Ready to switch to context because of scene event !'' ?w3))"
  note rs = refresh_engine_resolved [OF assms(1-3)]
  have l3: "lifecycle (trace ?w3c) = lifecycle (trace w)"
    using rs(6) [of w] by (simp add: log_debug_def emit_def)
  have "callbacks ?w3c = callbacks w" "watchers ?w3c = watchers w"
    using rs(3) [of w] rs(4) [of w] by (simp_all add: log_debug_def emit_def)
  then have same: "fst (destroy h ce ?w3c) = fst (destroy h ce w)"
    by (rule destroy_cong)
  obtain r4 w4 where d: "destroy h ce ?w3c = (r4, w4)"
    by force
  note deff = destroy_effect [OF d]
  show ?thesis
  proof (cases r4)
    case (Inl e)
    with assms(4,5) d rs(1) have
      "refresh_engine h engine_name prev_context w = (Inl e, w4)"
      by simp
    moreover from Inl d same have "fst (destroy h ce w) = Inl e"
      by simp
    ultimately show ?thesis
      using Inl deff l3 by simp
  next
    case (Inr u)
    obtain r5 w5 where s: "start_engine h engine_name t ctx w4 = (r5, w5)"
      by force
    note seff = start_engine_effect [OF s]
    from Inr assms(4,5) d s rs(1) have res:
      "refresh_engine h engine_name prev_context w =
         (case r5 of
            Inl e \<Rightarrow>
              if is_TankEngineInitError e
              then (Inr None,
                    create_tank_disabled_menu
                      (emit (DisplayInfo (''Tank Engine cannot be started: '' @ msg e)) w5))
              else (Inl e, w5)
          | Inr new_engine \<Rightarrow>
              (Inr (Some new_engine), log_debug ''Launched new engine for context!'' w5))"
      by (simp split: sum.splits)
    from Inr d same have ok: "fst (destroy h ce w) = Inr ()"
      by simp
    show ?thesis
    proof (cases r5)
      case e: (Inl e)
      with res ok Inr deff seff(1) l3 show ?thesis
        by (simp add: create_tank_disabled_menu_def emit_def menu_create_def deleteUI_def)
    next
      case e: (Inr e)
      with res ok Inr deff seff(1) l3 show ?thesis
        by (simp add: log_debug_def emit_def)
    qed
  qed
qed

theorem destroy_before_start_witness:
  "current_engine running_world = Some example_engine
   \<and> fst (destroy example_host example_engine running_world) = Inr ()
   \<and> (\<exists>rest. lifecycle (trace (snd (refresh_engine
          (example_host\<lparr>sceneName := ''/proj/seq01/shot020/scene.ma''\<rparr>) ''tk-maya''
          (Some shot010) running_world))) =
        lifecycle (trace running_world) @
        DestroyCalled 0 # DestroyReturned 0 #
        StartEngineCalled ''tk-maya'' (Tk ''/proj'') (Context (Some ''proj'') ''/proj/seq01/shot020'') #
        rest)"
proof -
  let ?h = "example_host\<lparr>sceneName := ''/proj/seq01/shot020/scene.ma''\<rparr>"
  have d: "fst (destroy ?h example_engine running_world) = Inr ()"
    "fst (destroy example_host example_engine running_world) = Inr ()"
    by (simp_all add: fst_destroy example_host_def example_engine_def running_world_def
        stop_watching_def removeCallback_def registered_def log_debug_def emit_def)
  have h: "sceneName ?h \<noteq> []"
    "tank_from_path ?h (abspath ?h (sceneName ?h)) = Inr (Tk ''/proj'')"
    "context_from_path ?h (Tk ''/proj'') (abspath ?h (sceneName ?h)) (Some shot010) =
       Inr (Context (Some ''proj'') ''/proj/seq01/shot020'')"
    "current_engine running_world = Some example_engine"
    "Some (Context (Some ''proj'') ''/proj/seq01/shot020'') \<noteq> Some shot010"
    by (simp_all add: example_host_def running_world_def shot010_def)
  from destroy_before_start [OF h, of "''tk-maya''"] d h(4) show ?thesis
    by (simp add: example_engine_def)
qed

subsection \<open>The event handler\<close>

lemma one_shot_fields [simp]:
  "current_engine (one_shot cb w) = current_engine w"
  "menus (one_shot cb w) = menus w"
  "disabled_shown (one_shot cb w) = disabled_shown w"
  "callbacks (one_shot cb w) = callbacks w @ registered (next_msg_id w) (next_watcher_id w)"
  "lifecycle (trace (one_shot cb w)) = lifecycle (trace w)"
  "prefix (trace w) (trace (one_shot cb w))"
  by (simp_all add: one_shot_def disabled_shown_def menu_exists_def)

lemma armed_one_shot [simp]: "armed (one_shot cb w)"
  by (simp add: one_shot_def armed_def registered_def)


lemma handler_none:
  "refresh_engine h n prev w = (Inr None, w1) \<Longrightarrow> \<forall>ev. add_callback_raises h ev = None \<Longrightarrow>
   on_scene_event_callback h n prev w = (Inr (), one_shot (n, prev) w1)"
  by (simp add: on_scene_event_callback_def SceneEventWatcher_ok one_shot_def)

lemma handler_caught:
  "refresh_engine h n prev w = (Inl e, w1) \<Longrightarrow> is_Exception e \<Longrightarrow>
   \<forall>ev. add_callback_raises h ev = None \<Longrightarrow>
   on_scene_event_callback h n prev w = (Inr (), one_shot (n, prev) (emit (DisplayError e) w1))"
  by (simp add: on_scene_event_callback_def SceneEventWatcher_ok one_shot_def)

lemma handler_escapes:
  "refresh_engine h n prev w = (Inl e, w1) \<Longrightarrow> \<not> is_Exception e \<Longrightarrow>
   on_scene_event_callback h n prev w = (Inl e, w1)"
  by (simp add: on_scene_event_callback_def)

lemma one_shot_fires:
  "\<exists>w2. stop_watching (next_watcher_id w) (one_shot cb w) = (Inr (), w2)
       \<and> scene_event_callback h' (next_watcher_id w) (one_shot cb w) =
           on_scene_event_callback h' (fst cb) (snd cb) w2"
proof -
  let ?ids = "[next_msg_id w, Suc (next_msg_id w), Suc (Suc (next_msg_id w)),
               Suc (Suc (Suc (next_msg_id w)))]"
  let ?wt = "\<lparr>message_ids = ?ids, cb_fn = cb, scene_events = default_scene_events,
              run_once = True\<rparr>"
  have wt: "watchers (one_shot cb w) (next_watcher_id w) = Some ?wt"
    by (simp add: one_shot_def)
  have "distinct ?ids" "set ?ids \<subseteq> fst ` set (callbacks (one_shot cb w))"
    by (simp_all add: registered_def)
  from remove_callbacks_live [OF this]
  have "\<exists>w2. stop_watching (next_watcher_id w) (one_shot cb w) = (Inr (), w2)"
    using wt by (simp add: stop_watching_def)
  then obtain w2 where s: "stop_watching (next_watcher_id w) (one_shot cb w) = (Inr (), w2)"
    by blast
  with wt have "scene_event_callback h' (next_watcher_id w) (one_shot cb w) =
           on_scene_event_callback h' (fst cb) (snd cb) w2"
    by (simp add: scene_event_callback_def)
  with s show ?thesis by blast
qed


lemmas eval_defs =
  on_scene_event_callback_def refresh_engine_def SceneEventWatcher_ok
  example_host_def initial_world_def running_world_def example_engine_def shot010_def
  menu_exists_def disabled_shown_def emit_def log_debug_def deleteUI_def menu_create_def
  create_tank_disabled_menu_def is_Exception_def is_TankError_def
  is_TankEngineInitError_def Let_def

lemma refresh_engine_init_error:
  assumes path: "sceneName h \<noteq> []"
    and tk: "tank_from_path h (abspath h (sceneName h)) = Inr t"
    and ctx: "context_from_path h t (abspath h (sceneName h)) prev_context = Inr ctx"
    and changed: "Some ctx \<noteq> prev_context \<or> current_engine w = None"
    and init: "start_engine_raises h engine_name t ctx = Some e" "is_TankEngineInitError e"
    and teardown: "\<forall>ce. current_engine w = Some ce \<longrightarrow> fst (destroy h ce w) = Inr ()"
  shows "\<exists>w1. refresh_engine h engine_name prev_context w = (Inr None, w1)
           \<and> current_engine w1 = None \<and> disabled_shown w1"
proof -
  let ?p = "abspath h (sceneName h)"
  let ?w3 = "emit (ContextFromPath t ?p prev_context)
                  (emit (TankFromPath ?p)
                    (if menu_exists ''TankMenuDisabled'' w
                     then deleteUI ''TankMenuDisabled'' w else w))"
  let ?w3c = "log_debug ''New context: %s''
                (log_debug ''Prev context: %s''
                  (log_debug ''Ready to switch to context because of scene event !'' ?w3))"
  note rs = refresh_engine_resolved [OF path tk ctx]
  have st: "start_engine h engine_name t ctx x = (Inl e, emit (StartEngineCalled engine_name t ctx) x)"
    for x
    using init(1) by (simp add: start_engine_def Let_def)
  have shown: "disabled_shown (create_tank_disabled_menu x)" for x
    by (simp add: disabled_shown_def create_tank_disabled_menu_def menu_exists_def
        menu_create_def emit_def deleteUI_def Let_def)
  have cur: "current_engine (create_tank_disabled_menu (emit a (emit b x))) = current_engine x"
    for a b x
    by (simp add: create_tank_disabled_menu_def menu_exists_def
        menu_create_def emit_def deleteUI_def Let_def)
  show ?thesis
  proof (cases "current_engine w")
    case None
    with rs(1) [of engine_name w] st init(2) rs(2) [of w] shown cur show ?thesis
      by simp
  next
    case (Some ce)
    have "callbacks ?w3c = callbacks w" "watchers ?w3c = watchers w"
      using rs(3) [of w] rs(4) [of w] by (simp_all add: log_debug_def emit_def)
    then have "fst (destroy h ce ?w3c) = fst (destroy h ce w)"
      by (rule destroy_cong)
    with teardown Some obtain w4 where d: "destroy h ce ?w3c = (Inr (), w4)"
      by (metis prod.collapse)
    from destroy_effect [OF d] have c4: "current_engine w4 = None"
      by simp
    from Some changed have "\<not> (current_engine w \<noteq> None \<and> Some ctx = prev_context)"
      by simp
    with Some rs(1) [of engine_name w] d st init(2) have
      "refresh_engine h engine_name prev_context w =
         (Inr None,
          create_tank_disabled_menu
            (emit (DisplayInfo (''Tank Engine cannot be started: '' @ msg e))
              (emit (StartEngineCalled engine_name t ctx) w4)))"
      by simp
    with c4 shown cur show ?thesis
      by simp
  qed
qed

text \<open>
  Claim C2. When the scene resolves to a context for which an engine has to be
  started (the context differs from the previous one, or no engine is running),
  \<open>start_engine\<close> raises TankEngineInitError, and the teardown of the running engine,
  if there is one, completes: \<open>refresh_engine\<close> returns no engine, the handler
  returns normally, and afterwards no engine is current, the disabled menu is shown
  and a new run-once watcher with the same engine name and previous context is
  registered for the scene events. Whatever the next host is, Maya calling that
  watcher stops it and runs \<open>on_scene_event_callback\<close> with those arguments again.
\<close>

theorem init_error_disables_and_rearms:
  assumes path: "sceneName h \<noteq> []"
    and tk: "tank_from_path h (abspath h (sceneName h)) = Inr t"
    and ctx: "context_from_path h t (abspath h (sceneName h)) prev_context = Inr ctx"
    and changed: "Some ctx \<noteq> prev_context \<or> current_engine w = None"
    and init: "start_engine_raises h engine_name t ctx = Some e" "is_TankEngineInitError e"
    and teardown: "\<forall>ce. current_engine w = Some ce \<longrightarrow> fst (destroy h ce w) = Inr ()"
    and subs: "\<forall>ev. add_callback_raises h ev = None"
  shows "\<exists>w1. refresh_engine h engine_name prev_context w = (Inr None, w1)
           \<and> on_scene_event_callback h engine_name prev_context w =
               (Inr (), one_shot (engine_name, prev_context) w1)
           \<and> current_engine (one_shot (engine_name, prev_context) w1) = None
           \<and> disabled_shown (one_shot (engine_name, prev_context) w1)
           \<and> armed (one_shot (engine_name, prev_context) w1)
           \<and> (\<forall>h'. \<exists>w2.
                 stop_watching (next_watcher_id w1) (one_shot (engine_name, prev_context) w1) =
                   (Inr (), w2)
                 \<and> scene_event_callback h' (next_watcher_id w1)
                     (one_shot (engine_name, prev_context) w1) =
                   on_scene_event_callback h' engine_name prev_context w2)"
proof -
  from refresh_engine_init_error [OF path tk ctx changed init teardown]
  obtain w1 where r: "refresh_engine h engine_name prev_context w = (Inr None, w1)"
    and c: "current_engine w1 = None" and d: "disabled_shown w1"
    by blast
  from r subs have "on_scene_event_callback h engine_name prev_context w =
               (Inr (), one_shot (engine_name, prev_context) w1)"
    by (rule handler_none)
  moreover have "\<forall>h'. \<exists>w2.
                 stop_watching (next_watcher_id w1) (one_shot (engine_name, prev_context) w1) =
                   (Inr (), w2)
                 \<and> scene_event_callback h' (next_watcher_id w1)
                     (one_shot (engine_name, prev_context) w1) =
                   on_scene_event_callback h' engine_name prev_context w2"
    using one_shot_fires [of w1 "(engine_name, prev_context)"] by simp
  ultimately show ?thesis
    using r c d by simp
qed


theorem init_error_disables_and_rearms_witness:
  "fst (destroy failing_init_host example_engine running_world) = Inr ()
   \<and> (\<exists>w1. on_scene_event_callback failing_init_host ''tk-maya'' (Some shot010) running_world =
              (Inr (), one_shot (''tk-maya'', Some shot010) w1)
          \<and> current_engine (one_shot (''tk-maya'', Some shot010) w1) = None
          \<and> disabled_shown (one_shot (''tk-maya'', Some shot010) w1)
          \<and> armed (one_shot (''tk-maya'', Some shot010) w1))"
proof -
  let ?h = failing_init_host
  have d: "fst (destroy ?h example_engine running_world) = Inr ()"
    by (simp add: fst_destroy failing_init_host_def example_host_def example_engine_def
        running_world_def stop_watching_def removeCallback_def registered_def log_debug_def
        emit_def)
  have h: "sceneName ?h \<noteq> []"
    "tank_from_path ?h (abspath ?h (sceneName ?h)) = Inr (Tk ''/proj'')"
    "context_from_path ?h (Tk ''/proj'') (abspath ?h (sceneName ?h)) (Some shot010) = Inr shot020"
    "Some shot020 \<noteq> Some shot010 \<or> current_engine running_world = None"
    "start_engine_raises ?h ''tk-maya'' (Tk ''/proj'') shot020 =
       Some (Exn TankEngineInitErrorCls ''no environment'')"
    "is_TankEngineInitError (Exn TankEngineInitErrorCls ''no environment'')"
    "\<forall>ce. current_engine running_world = Some ce \<longrightarrow>
       fst (destroy ?h ce running_world) = Inr ()"
    "\<forall>ev. add_callback_raises ?h ev = None"
    using d
    by (simp_all add: failing_init_host_def example_host_def shot010_def shot020_def
        running_world_def is_TankEngineInitError_def)
  from init_error_disables_and_rearms [OF h] d show ?thesis
    by blast
qed

lemma refresh_engine_raise_clears:
  assumes "refresh_engine h engine_name prev_context w = (Inl e, w1)"
  shows "\<not> disabled_shown w1"
proof -
  let ?p = "abspath h (sceneName h)"
  let ?w1 = "if menu_exists ''TankMenuDisabled'' w then deleteUI ''TankMenuDisabled'' w else w"
  have c1: "\<not> disabled_shown ?w1"
    by (simp add: disabled_shown_def menu_exists_def deleteUI_def emit_def)
  have em: "disabled_shown (emit a x) = disabled_shown x" for a x
    by (simp add: disabled_shown_def menu_exists_def emit_def)
  from assms have path: "sceneName h \<noteq> []"
    by (auto simp add: refresh_engine_def Let_def)
  show ?thesis
  proof (cases "tank_from_path h ?p")
    case (Inl x)
    with assms path have "w1 = emit (TankFromPath ?p) ?w1"
      by (simp add: refresh_engine_def Let_def split: if_splits)
    with c1 em show ?thesis by simp
  next
    case (Inr t)
    show ?thesis
    proof (cases "context_from_path h t ?p prev_context")
      case x: (Inl x)
      with assms path Inr have "w1 = emit (ContextFromPath t ?p prev_context)
          (emit (TankFromPath ?p) ?w1)"
        by (simp add: refresh_engine_def Let_def)
      with c1 em show ?thesis by simp
    next
      case c: (Inr ctx)
      let ?w3 = "emit (ContextFromPath t ?p prev_context) (emit (TankFromPath ?p) ?w1)"
      let ?w3c = "log_debug ''New context: %s''
                (log_debug ''Prev context: %s''
                  (log_debug ''Ready to switch to context because of scene event !'' ?w3))"
      note rs = refresh_engine_resolved [OF path Inr c]
      have c3: "\<not> disabled_shown ?w3" "\<not> disabled_shown ?w3c"
        using c1 em by (simp_all add: log_debug_def)
      from assms rs(1) [of engine_name w]
      have changed: "\<not> (current_engine w \<noteq> None \<and> Some ctx = prev_context)"
        by auto
      obtain r4 w4 where d: "(case current_engine w of
                 None \<Rightarrow> (Inr (), ?w3)
               | Some ce \<Rightarrow> destroy h ce ?w3c) = (r4, w4)"
        by force
      from changed have if_false:
        "(if current_engine w \<noteq> None \<and> Some ctx = prev_context then A else B) = B" for A B
        by auto
      have res: "refresh_engine h engine_name prev_context w =
        (case (r4, w4) of
           (Inl e, w4) \<Rightarrow> (Inl e, w4)
         | (Inr u, w4) \<Rightarrow>
             (case start_engine h engine_name t ctx w4 of
                (Inl e, w5) \<Rightarrow>
                  if is_TankEngineInitError e
                  then (Inr None,
                        create_tank_disabled_menu
                          (emit (DisplayInfo (''Tank Engine cannot be started: '' @ msg e)) w5))
                  else (Inl e, w5)
              | (Inr new_engine, w5) \<Rightarrow>
                  (Inr (Some new_engine),
                   log_debug ''Launched new engine for context!'' w5)))"
        by (simp only: rs(1) [of engine_name w] if_false d)
      have c4: "\<not> disabled_shown w4"
      proof (cases "current_engine w")
        case None
        with d c3 show ?thesis by simp
      next
        case (Some ce)
        with d have "destroy h ce ?w3c = (r4, w4)" by simp
        from destroy_effect [OF this] c3(2) show ?thesis
          by (auto simp add: disabled_shown_def menu_exists_def)
      qed
      show ?thesis
      proof (cases r4)
        case (Inl x)
        with assms res have "w1 = w4"
          by simp
        with c4 show ?thesis by simp
      next
        case u: (Inr u)
        obtain r5 w5 where s: "start_engine h engine_name t ctx w4 = (r5, w5)"
          by force
        from u assms res s
        have "w1 = w5 \<and> (\<exists>x. r5 = Inl x)"
          by (cases r5) (simp_all split: if_splits)
        with start_engine_effect(3) [OF s] c4 show ?thesis
          by (auto simp add: disabled_shown_def menu_exists_def)
      qed
    qed
  qed
qed

text \<open>
  Claim C6, as the code has it. An exception that leaves \<open>refresh_engine\<close> and is an
  Exception is caught by the handler: the handler returns normally, reports the
  exception with displayError, and registers a run-once watcher that runs the
  handler again on the next scene event. It does not render the disabled menu: the
  indicator is not shown afterwards, and the current engine is whatever
  \<open>refresh_engine\<close> left. An exception outside Exception is not caught and leaves
  the handler.
\<close>

theorem unexpected_exception_caught:
  assumes "refresh_engine h engine_name prev_context w = (Inl e, w1)"
    and "\<forall>ev. add_callback_raises h ev = None"
  shows "(is_Exception e \<longrightarrow>
            on_scene_event_callback h engine_name prev_context w =
              (Inr (), one_shot (engine_name, prev_context) (emit (DisplayError e) w1))
          \<and> DisplayError e \<in>
              set (trace (one_shot (engine_name, prev_context) (emit (DisplayError e) w1)))
          \<and> current_engine (one_shot (engine_name, prev_context) (emit (DisplayError e) w1)) =
              current_engine w1
          \<and> \<not> disabled_shown (one_shot (engine_name, prev_context) (emit (DisplayError e) w1))
          \<and> armed (one_shot (engine_name, prev_context) (emit (DisplayError e) w1))
          \<and> (\<forall>h'. \<exists>w2.
                 stop_watching (next_watcher_id w1)
                   (one_shot (engine_name, prev_context) (emit (DisplayError e) w1)) = (Inr (), w2)
                 \<and> scene_event_callback h' (next_watcher_id w1)
                     (one_shot (engine_name, prev_context) (emit (DisplayError e) w1)) =
                   on_scene_event_callback h' engine_name prev_context w2))
       \<and> (\<not> is_Exception e \<longrightarrow>
            on_scene_event_callback h engine_name prev_context w = (Inl e, w1))"
proof -
  let ?w2 = "emit (DisplayError e) w1"
  have "\<not> disabled_shown ?w2"
    using refresh_engine_raise_clears [OF assms(1)]
    by (simp add: disabled_shown_def menu_exists_def emit_def)
  moreover have "DisplayError e \<in> set (trace (one_shot (engine_name, prev_context) ?w2))"
    by (simp add: one_shot_def emit_def)
  moreover have "current_engine ?w2 = current_engine w1" "next_watcher_id ?w2 = next_watcher_id w1"
    by (simp_all add: emit_def)
  moreover have "\<forall>h'. \<exists>w2.
                 stop_watching (next_watcher_id ?w2)
                   (one_shot (engine_name, prev_context) ?w2) = (Inr (), w2)
                 \<and> scene_event_callback h' (next_watcher_id ?w2)
                     (one_shot (engine_name, prev_context) ?w2) =
                   on_scene_event_callback h' engine_name prev_context w2"
    using one_shot_fires [of ?w2 "(engine_name, prev_context)"] by simp
  ultimately show ?thesis
    using handler_caught [OF assms(1) _ assms(2)] handler_escapes [OF assms(1)]
    by simp
qed


text \<open>
  The claim as stated fails: after an unexpected error of the context lookup the
  handler returns, but with no engine and no disabled indicator; and an interrupt
  raised by the workspace lookup leaves the handler.
\<close>

theorem unexpected_exception_counterexample:
  "fst (on_scene_event_callback broken_context_host ''tk-maya'' None initial_world) = Inr ()
   \<and> current_engine (snd (on_scene_event_callback broken_context_host ''tk-maya'' None
        initial_world)) = None
   \<and> \<not> disabled_shown (snd (on_scene_event_callback broken_context_host ''tk-maya'' None
        initial_world))
   \<and> fst (on_scene_event_callback interrupted_host ''tk-maya'' None initial_world) =
        Inl (Exn BaseExceptionCls ''KeyboardInterrupt'')"
  by (simp add: broken_context_host_def interrupted_host_def eval_defs)

theorem unexpected_exception_caught_witness:
  "is_Exception (Exn ExceptionCls ''lookup failed'')
   \<and> fst (refresh_engine broken_context_host ''tk-maya'' None initial_world) =
        Inl (Exn ExceptionCls ''lookup failed'')
   \<and> fst (on_scene_event_callback broken_context_host ''tk-maya'' None initial_world) = Inr ()
   \<and> armed (snd (on_scene_event_callback broken_context_host ''tk-maya'' None initial_world))
   \<and> \<not> disabled_shown (snd (on_scene_event_callback broken_context_host ''tk-maya'' None
        initial_world))"
proof -
  let ?w1 = "snd (refresh_engine broken_context_host ''tk-maya'' None initial_world)"
  have f: "fst (refresh_engine broken_context_host ''tk-maya'' None initial_world) =
        Inl (Exn ExceptionCls ''lookup failed'')"
    by (simp add: broken_context_host_def eval_defs)
  then have r: "refresh_engine broken_context_host ''tk-maya'' None initial_world =
        (Inl (Exn ExceptionCls ''lookup failed''), ?w1)"
    by (simp add: prod_eq_iff)
  have s: "\<forall>ev. add_callback_raises broken_context_host ev = None"
    by (simp add: broken_context_host_def example_host_def)
  have e: "is_Exception (Exn ExceptionCls ''lookup failed'')"
    by (simp add: is_Exception_def)
  from unexpected_exception_caught [OF r s] e f show ?thesis
    by simp
qed

lemma armed_ui [simp]:
  "armed (emit a w) = armed w"
  "armed (deleteUI m w) = armed w"
  "armed (menu_create m w) = armed w"
  "armed (log_debug m w) = armed w"
  "armed (create_tank_disabled_menu w) = armed w"
  by (simp_all add: emit_def deleteUI_def menu_create_def log_debug_def
      create_tank_disabled_menu_def Let_def)

lemma disabled_ui [simp]:
  "disabled_shown (emit a w) = disabled_shown w"
  "disabled_shown (log_debug m w) = disabled_shown w"
  "disabled_shown (create_tank_disabled_menu w)"
  "\<not> disabled_shown (if menu_exists ''TankMenuDisabled'' w
                      then deleteUI ''TankMenuDisabled'' w else w)"
  by (simp_all add: disabled_shown_def menu_exists_def emit_def deleteUI_def menu_create_def
      log_debug_def create_tank_disabled_menu_def Let_def)

lemma engine_ui [simp]:
  "current_engine (emit a w) = current_engine w"
  "current_engine (deleteUI m w) = current_engine w"
  "current_engine (log_debug m w) = current_engine w"
  "current_engine (create_tank_disabled_menu w) = current_engine w"
  "current_engine (if menu_exists ''TankMenuDisabled'' w
                   then deleteUI ''TankMenuDisabled'' w else w) = current_engine w"
  by (simp_all add: menu_exists_def emit_def deleteUI_def menu_create_def
      log_debug_def create_tank_disabled_menu_def Let_def)






subsection \<open>The queue\<close>

lemma report_all:
  "foldl (\<lambda>s p. report_progress p s) st ps =
     st\<lparr>current_progress := (if ps = [] then current_progress st else last ps),
        progress_trace := progress_trace st @ map ProgressStep (deltas (current_progress st) ps)\<rparr>"
  by (induction ps arbitrary: st) (simp_all add: report_progress_def qemit_def Let_def)


lemma process_item_store:
  "store (process_item item st) =
     (case store st (qi_args item) of
        None \<Rightarrow> store st
      | Some kw \<Rightarrow> (store st)(qi_args item \<mapsto> kw(''progress_callback'' \<mapsto> ReportProgress)))"
  by (simp add: process_item_def Let_def qemit_def log_exception_def report_all
      split: option.splits)

lemma process_item_queue: "queue (process_item item st) = queue st"
  by (simp add: process_item_def Let_def qemit_def log_exception_def report_all
      split: option.splits)




lemma execute_loop_store:
  "store (execute_loop st) a =
     (if a \<in> qi_args ` set (queue st)
      then map_option (\<lambda>kw. kw(''progress_callback'' \<mapsto> ReportProgress)) (store st a)
      else store st a)"
proof (induction st rule: execute_loop.induct)
  case (1 st)
  show ?case
  proof (cases "queue st")
    case Nil
    then show ?thesis by (simp add: execute_loop.simps [of st])
  next
    case (Cons item rest)
    let ?st1 = "process_item item (st\<lparr>queue := rest\<rparr>)"
    have step: "execute_loop st = execute_loop ?st1"
      using Cons by (subst execute_loop.simps) simp
    have q1: "queue ?st1 = rest"
      by (simp add: process_item_queue)
    have s1: "store ?st1 = (case store st (qi_args item) of
        None \<Rightarrow> store st
      | Some kw \<Rightarrow> (store st)(qi_args item \<mapsto> kw(''progress_callback'' \<mapsto> ReportProgress)))"
      by (simp add: process_item_store split: option.splits)
    from "1.IH"[OF Cons] q1 have ih: "store (execute_loop ?st1) a =
      (if a \<in> qi_args ` set rest
       then map_option (\<lambda>kw. kw(''progress_callback'' \<mapsto> ReportProgress)) (store ?st1 a)
       else store ?st1 a)"
      by simp
    show ?thesis
    proof (cases "store st (qi_args item)")
      case None
      with s1 have "store ?st1 = store st" by simp
      with ih step Cons None show ?thesis
        by (cases "a = qi_args item") (simp_all del: fun_upd_apply)
    next
      case (Some kw)
      with s1 have "store ?st1 =
          (store st)(qi_args item \<mapsto> kw(''progress_callback'' \<mapsto> ReportProgress))"
        by simp
      with ih step Cons Some show ?thesis
        by (cases "a = qi_args item") (simp_all del: fun_upd_apply add: fun_upd_other fun_upd_same)
    qed
  qed
qed

lemma add_to_queue_fields:
  "queue (add_to_queue n m a st) = queue st @ [\<lparr>qi_name = n, qi_method = m, qi_args = a\<rparr>]"
  "store (add_to_queue n m a st) = store st"
  "progress_trace (add_to_queue n m a st) =
     progress_trace st @ [DisplayWarning (''Tank: '' @ deprecated)]"
  by (simp_all add: add_to_queue_def log_warning_def qemit_def Let_def)





text \<open>
  Claim C10. \<open>add_to_queue\<close> keeps the caller's mapping by reference and leaves it
  as it is; \<open>execute_queue\<close> then writes the progress callback into that very
  object: after the drain the caller's reference shows the mapping with the key
  \<open>progress_callback\<close> added and every other entry as before.
\<close>

theorem progress_callback_injected_in_place:
  assumes "store st a = Some kw"
  shows "store (add_to_queue n m a st) a = Some kw
       \<and> store (execute_queue (add_to_queue n m a st)) a =
           Some (kw(''progress_callback'' \<mapsto> ReportProgress))
       \<and> (\<forall>k. k \<noteq> ''progress_callback'' \<longrightarrow>
            map_option (\<lambda>kw'. kw' k) (store (execute_queue (add_to_queue n m a st)) a) =
            Some (kw k))"
  using assms
  by (simp add: execute_queue_def execute_loop_store add_to_queue_fields log_warning_def
      qemit_def)

theorem progress_callback_injected_in_place_witness:
  "store example_queue_state 0 = Some [''path'' \<mapsto> PyStr ''/proj/scene.ma'']
   \<and> store (execute_queue
        (add_to_queue ''export'' (\<lambda>kw. ([50], None)) 0 example_queue_state)) 0 =
       Some [''path'' \<mapsto> PyStr ''/proj/scene.ma'', ''progress_callback'' \<mapsto> ReportProgress]"
proof -
  have h: "store example_queue_state 0 = Some [''path'' \<mapsto> PyStr ''/proj/scene.ma'']"
    by (simp add: example_queue_state_def)
  from progress_callback_injected_in_place [OF h, of "''export''" "\<lambda>kw. ([50], None)"] h
  show ?thesis by simp
qed

end
